theory Spec2Isabelle
  imports Main "HOL-Library.Sublist"
begin

section \<open>Values, objects and the store\<close>

text \<open>
  The annotation builder of the repository is a TypeScript class \<open>Annotator\<close>.  Its
  instances are mutable (the label grows), its \<open>decorate\<close> method allocates closures
  that keep a reference to the instance, and those closures write properties of
  whatever object they are called on.  The model therefore has an explicit store:
  annotator instances and JavaScript objects live at references, and every method is
  a function from the store to a result and the new store.

  Only own properties of objects are tracked: the prototype chain of an object is
  taken to hold no property named \<open>__doc__\<close> and none named like a shadow field
  \<open>_<key>\<close> (so the key \<open>_proto__\<close>, whose shadow field would be the inherited
  accessor \<open>__proto__\<close>, is outside the model), and \<open>target.apply\<close> is the built-in
  \<open>Function.prototype.apply\<close>.  The one inherited read the source makes,
  \<open>value.constructor\<close> in \<open>getType\<close>, is recorded per object as the field
  \<open>constructor_name\<close>.  The own properties that every function has (\<open>length\<close>, \<open>name\<close>,
  \<open>prototype\<close>) are left out: the source never reads them.

  The class body is strict code, so a write that an object refuses throws a
  \<open>TypeError\<close> instead of being dropped.
\<close>

type_synonym ref = nat

datatype key = KString string | KSymbol nat

datatype js_value =
    VUndefined
  | VNull
  | VBoolean bool
  | VNumber int
  | VNaN
  | VString string
  | VBigInt int
  | VSymbol nat
  | VObject ref

text \<open>
  A property is a data property (value, writable, enumerable, configurable) or an
  accessor property (getter, setter, enumerable, configurable).
\<close>

datatype property =
    Data js_value bool bool bool
  | Accessor js_value js_value bool bool

text \<open>
  The body of a callable object.  \<open>Native n\<close> is a function written by the user of
  the library; the four other bodies are the closures that \<open>decorate\<close> creates:
  the wrapper of the function form (it captures \<open>target\<close>), the wrapper of the method
  form (it captures \<open>originalMethod\<close> and \<open>self\<close>), and the getter and the setter of
  the property form (they capture \<open>propertyKey\<close>; the setter also \<open>self\<close>).
\<close>

datatype code =
    Native nat
  | DecoratedFunction js_value
  | DecoratedMethod js_value ref
  | PropertyGet key
  | PropertySet key ref

record js_object =
  props :: "(key \<times> property) list"
  extensible :: bool
  callable :: "code option"
  constructor_name :: "string option"

record annotator_options =
  message :: "string option"
  description :: "string option"
  tags :: "(string \<times> string) list option"
  preserveTypes :: js_value

text \<open>What \<open>this.options\<close> holds: \<open>null\<close> or an options object.\<close>

datatype options_value = NullOptions | Options annotator_options

record annotator =
  label :: string
  options :: options_value

record state =
  heap :: "ref \<Rightarrow> js_object"
  next_ref :: ref
  annotators :: "ref \<Rightarrow> annotator"
  next_annotator :: ref

datatype js_error = TypeError | Thrown js_value

datatype completion = Return js_value | Throw js_error

text \<open>\<open>"\n\n"\<close>, the separator of the template literals.\<close>

abbreviation blank_line :: string where
  "blank_line \<equiv> [CHR 0x0A, CHR 0x0A]"

subsection \<open>Primitive operations of the language\<close>

definition typeof :: "state \<Rightarrow> js_value \<Rightarrow> string" where
  "typeof s v =
     (case v of
        VUndefined \<Rightarrow> ''undefined''
      | VNull \<Rightarrow> ''object''
      | VBoolean _ \<Rightarrow> ''boolean''
      | VNumber _ \<Rightarrow> ''number''
      | VNaN \<Rightarrow> ''number''
      | VString _ \<Rightarrow> ''string''
      | VBigInt _ \<Rightarrow> ''bigint''
      | VSymbol _ \<Rightarrow> ''symbol''
      | VObject r \<Rightarrow> (if callable (heap s r) = None then ''object'' else ''function''))"

definition truthy :: "js_value \<Rightarrow> bool" where
  "truthy v =
     (case v of
        VUndefined \<Rightarrow> False
      | VNull \<Rightarrow> False
      | VBoolean b \<Rightarrow> b
      | VNumber n \<Rightarrow> n \<noteq> 0
      | VNaN \<Rightarrow> False
      | VString t \<Rightarrow> t \<noteq> []
      | VBigInt n \<Rightarrow> n \<noteq> 0
      | VSymbol _ \<Rightarrow> True
      | VObject _ \<Rightarrow> True)"

text \<open>
  \<open>v.constructor\<close>, as far as \<open>getType\<close> looks at it: \<open>Some n\<close> when the read yields
  a function whose \<open>name\<close> is \<open>n\<close>, \<open>None\<close> when it yields anything else.  The
  primitives inherit the constructor of their wrapper; the source never reads the
  constructor of \<open>undefined\<close> or \<open>null\<close> (the \<open>&&\<close> chain stops before).
\<close>

definition constructor_of :: "state \<Rightarrow> js_value \<Rightarrow> string option" where
  "constructor_of s v =
     (case v of
        VUndefined \<Rightarrow> None
      | VNull \<Rightarrow> None
      | VBoolean _ \<Rightarrow> Some ''Boolean''
      | VNumber _ \<Rightarrow> Some ''Number''
      | VNaN \<Rightarrow> Some ''Number''
      | VString _ \<Rightarrow> Some ''String''
      | VBigInt _ \<Rightarrow> Some ''BigInt''
      | VSymbol _ \<Rightarrow> Some ''Symbol''
      | VObject r \<Rightarrow> constructor_name (heap s r))"

section \<open>The annotator: construction, mutators, rendering\<close>

definition empty_options :: annotator_options where
  "empty_options =
     \<lparr>message = None, description = None, tags = None, preserveTypes = VUndefined\<rparr>"

text \<open>
  \<open>new Annotator(label, options)\<close>.  The default of the parameter, \<open>{}\<close>, replaces an
  absent (\<open>undefined\<close>) argument only: \<open>None\<close> is the absent argument,
  \<open>Some NullOptions\<close> is \<open>null\<close>, which is stored as it is.
\<close>

definition new_Annotator :: "string \<Rightarrow> options_value option \<Rightarrow> state \<Rightarrow> ref \<times> state" where
  "new_Annotator l opts s =
     (next_annotator s,
      s\<lparr>annotators := (annotators s)
           (next_annotator s :=
              \<lparr>label = l, options = (case opts of None \<Rightarrow> Options empty_options | Some v \<Rightarrow> v)\<rparr>),
        next_annotator := Suc (next_annotator s)\<rparr>)"

definition forClass :: "string \<Rightarrow> options_value option \<Rightarrow> state \<Rightarrow> ref \<times> state" where
  "forClass className opts s = new_Annotator (''Class: '' @ className) opts s"

definition forMethod :: "string \<Rightarrow> options_value option \<Rightarrow> state \<Rightarrow> ref \<times> state" where
  "forMethod methodName opts s = new_Annotator (''Method: '' @ methodName) opts s"

definition forFunction :: "options_value option \<Rightarrow> state \<Rightarrow> ref \<times> state" where
  "forFunction opts s = new_Annotator ''Function'' opts s"

definition forProperty :: "string \<Rightarrow> options_value option \<Rightarrow> state \<Rightarrow> ref \<times> state" where
  "forProperty propertyName opts s = new_Annotator (''Property: '' @ propertyName) opts s"

definition types_table :: "string \<Rightarrow> string option" where
  "types_table t =
     (if t = ''number'' then Some ''Number''
      else if t = ''string'' then Some ''String''
      else if t = ''boolean'' then Some ''Boolean''
      else None)"

text \<open>
  \<open>getType\<close> reads \<open>this.options.preserveTypes\<close> first: on \<open>null\<close> options that read
  throws a \<open>TypeError\<close>.
\<close>

definition getType :: "state \<Rightarrow> ref \<Rightarrow> js_error + string" where
  "getType s self =
     (case options (annotators s self) of
        NullOptions \<Rightarrow> Inl TypeError
      | Options opts \<Rightarrow>
          (let v = preserveTypes opts;
               type = (case types_table (typeof s v) of Some t \<Rightarrow> t | None \<Rightarrow> ''unknown'')
           in if type = ''unknown'' \<and> truthy v \<and> constructor_of s v \<noteq> None
              then Inr (the (constructor_of s v))
              else Inr type))"

text \<open>\<open>Array.prototype.join\<close> on an array of strings.\<close>

fun join :: "string \<Rightarrow> string list \<Rightarrow> string" where
  "join sep [] = []"
| "join sep [x] = x"
| "join sep (x # y # ys) = x @ sep @ join sep (y # ys)"

text \<open>
  \<open>tags\<close> is kept as the list that \<open>Object.entries\<close> returns for it, in that order.
\<close>

definition formatTags :: "state \<Rightarrow> ref \<Rightarrow> js_error + string" where
  "formatTags s self =
     (case options (annotators s self) of
        NullOptions \<Rightarrow> Inl TypeError
      | Options opts \<Rightarrow>
          (case tags opts of
             None \<Rightarrow> Inr []
           | Some entries \<Rightarrow>
               Inr (join [CHR 0x0A] (map (\<lambda>(name, v). ''@'' @ name @ '' '' @ v) entries))))"

definition set_label :: "ref \<Rightarrow> string \<Rightarrow> state \<Rightarrow> state" where
  "set_label self l s =
     s\<lparr>annotators := (annotators s)(self := (annotators s self)\<lparr>label := l\<rparr>)\<rparr>"

definition withDescription :: "ref \<Rightarrow> string \<Rightarrow> state \<Rightarrow> ref \<times> state" where
  "withDescription self d s =
     (self, set_label self (label (annotators s self) @ blank_line @ d) s)"

definition withTag :: "ref \<Rightarrow> string \<Rightarrow> string \<Rightarrow> state \<Rightarrow> ref \<times> state" where
  "withTag self tagName tagValue s =
     (self, set_label self (label (annotators s self) @ blank_line @ ''@'' @ tagName @ '' '' @ tagValue) s)"

text \<open>
  In \<open>withPreserveTypes\<close> the template literal is evaluated before the assignment:
  when \<open>getType\<close> throws, the label is not touched.
\<close>

definition withPreserveTypes :: "ref \<Rightarrow> state \<Rightarrow> (js_error + ref) \<times> state" where
  "withPreserveTypes self s =
     (case getType s self of
        Inl e \<Rightarrow> (Inl e, s)
      | Inr t \<Rightarrow>
          (Inr self, set_label self (label (annotators s self) @ blank_line @ ''@type '' @ t) s))"

definition truthy_string :: "string option \<Rightarrow> bool" where
  "truthy_string t = (case t of None \<Rightarrow> False | Some x \<Rightarrow> x \<noteq> [])"

text \<open>
  \<open>toString\<close> starts by destructuring \<open>this.options\<close>, which throws a \<open>TypeError\<close> on
  \<open>null\<close>.  It builds the rendering in a local variable and writes nothing.
\<close>

definition toString :: "ref \<Rightarrow> state \<Rightarrow> (js_error + string) \<times> state" where
  "toString self s =
     (case options (annotators s self) of
        NullOptions \<Rightarrow> (Inl TypeError, s)
      | Options opts \<Rightarrow>
          (let l0 = label (annotators s self);
               l1 = (if truthy_string (message opts) then l0 @ '' ('' @ the (message opts) @ '')'' else l0);
               l2 = (if truthy_string (description opts) then l1 @ blank_line @ the (description opts) else l1)
           in case formatTags s self of
                Inl e \<Rightarrow> (Inl e, s)
              | Inr block \<Rightarrow>
                  (let l3 = l2 @ blank_line @ block
                   in if truthy (preserveTypes opts)
                      then (case getType s self of
                              Inl e \<Rightarrow> (Inl e, s)
                            | Inr t \<Rightarrow> (Inr (l3 @ blank_line @ ''@type '' @ t), s))
                      else (Inr l3, s))))"

section \<open>Objects: reading, writing and defining properties\<close>

type_synonym result = "(completion \<times> state) option"

text \<open>
  A computation that may not return (\<open>None\<close>), may throw, or returns a value; the next
  step runs only after a normal return.
\<close>

definition and_then :: "result \<Rightarrow> (js_value \<Rightarrow> state \<Rightarrow> result) \<Rightarrow> result" where
  "and_then m f =
     (case m of
        None \<Rightarrow> None
      | Some (Throw e, s) \<Rightarrow> Some (Throw e, s)
      | Some (Return v, s) \<Rightarrow> f v s)"

type_synonym caller = "js_value \<Rightarrow> js_value \<Rightarrow> js_value list \<Rightarrow> state \<Rightarrow> result"

definition own_property :: "state \<Rightarrow> ref \<Rightarrow> key \<Rightarrow> property option" where
  "own_property s r k = map_of (props (heap s r)) k"

fun update_prop :: "key \<Rightarrow> property \<Rightarrow> (key \<times> property) list \<Rightarrow> (key \<times> property) list" where
  "update_prop k p [] = [(k, p)]"
| "update_prop k p ((k', p') # ps) =
     (if k' = k then (k, p) # ps else (k', p') # update_prop k p ps)"

definition store_prop :: "ref \<Rightarrow> key \<Rightarrow> property \<Rightarrow> state \<Rightarrow> state" where
  "store_prop r k p s =
     s\<lparr>heap := (heap s)(r := (heap s r)\<lparr>props := update_prop k p (props (heap s r))\<rparr>)\<rparr>"

text \<open>
  \<open>this[k]\<close>.  Reading a property of \<open>undefined\<close> or \<open>null\<close> throws; an accessor
  property runs its getter with the object as receiver.
\<close>

definition get_value :: "caller \<Rightarrow> js_value \<Rightarrow> key \<Rightarrow> state \<Rightarrow> result" where
  "get_value call this k s =
     (case this of
        VUndefined \<Rightarrow> Some (Throw TypeError, s)
      | VNull \<Rightarrow> Some (Throw TypeError, s)
      | VObject r \<Rightarrow>
          (case own_property s r k of
             None \<Rightarrow> Some (Return VUndefined, s)
           | Some (Data v _ _ _) \<Rightarrow> Some (Return v, s)
           | Some (Accessor g _ _ _) \<Rightarrow>
               (if typeof s g = ''function'' then call g this [] s
                else Some (Return VUndefined, s)))
      | _ \<Rightarrow> Some (Return VUndefined, s))"

text \<open>
  \<open>this[k] = v\<close> in strict code (class bodies are strict): the write throws a
  \<open>TypeError\<close> when the receiver is a primitive, when the property is absent and
  the object is not extensible, when it is a data property that is not writable, and
  when it is an accessor without a setter.  An accessor with a setter runs
  the setter.
\<close>

definition put_value :: "caller \<Rightarrow> js_value \<Rightarrow> key \<Rightarrow> js_value \<Rightarrow> state \<Rightarrow> result" where
  "put_value call this k v s =
     (case this of
        VObject r \<Rightarrow>
          (case own_property s r k of
             None \<Rightarrow>
               (if extensible (heap s r)
                then Some (Return VUndefined, store_prop r k (Data v True True True) s)
                else Some (Throw TypeError, s))
           | Some (Data _ w e c) \<Rightarrow>
               (if w then Some (Return VUndefined, store_prop r k (Data v w e c) s)
                else Some (Throw TypeError, s))
           | Some (Accessor _ st _ _) \<Rightarrow>
               (if typeof s st = ''function''
                then and_then (call st this [v] s) (\<lambda>_ s'. Some (Return VUndefined, s'))
                else Some (Throw TypeError, s)))
      | _ \<Rightarrow> Some (Throw TypeError, s))"

fun is_configurable :: "property \<Rightarrow> bool" where
  "is_configurable (Data _ _ _ c) = c"
| "is_configurable (Accessor _ _ _ c) = c"

text \<open>
  \<open>Object.defineProperty(r, k, p)\<close> for a complete descriptor \<open>p\<close>: \<open>None\<close> is
  success, \<open>Some TypeError\<close> the rejection.  A new property needs an extensible
  object; a configurable one is replaced; one that is not configurable accepts only
  the same descriptor again or, when it is a writable data property, a new value
  and writable flag.
\<close>

definition defineProperty :: "ref \<Rightarrow> key \<Rightarrow> property \<Rightarrow> state \<Rightarrow> js_error option \<times> state" where
  "defineProperty r k p s =
     (case own_property s r k of
        None \<Rightarrow> (if extensible (heap s r) then (None, store_prop r k p s) else (Some TypeError, s))
      | Some old \<Rightarrow>
          (if is_configurable old then (None, store_prop r k p s)
           else if old = p then (None, s)
           else (case (old, p) of
                   (Data _ True e _, Data _ _ e' False) \<Rightarrow>
                     (if e' = e then (None, store_prop r k p s) else (Some TypeError, s))
                 | _ \<Rightarrow> (Some TypeError, s))))"

definition alloc :: "js_object \<Rightarrow> state \<Rightarrow> ref \<times> state" where
  "alloc obj s = (next_ref s, s\<lparr>heap := (heap s)(next_ref s := obj), next_ref := Suc (next_ref s)\<rparr>)"

definition new_function :: "code \<Rightarrow> state \<Rightarrow> ref \<times> state" where
  "new_function c s =
     alloc \<lparr>props = [], extensible = True, callable = Some c, constructor_name = Some ''Function''\<rparr> s"

section \<open>Calling functions\<close>

text \<open>
  The functions of the user are opaque: \<open>natives n this args s\<close> is what the
  \<open>n\<close>-th of them does when called, \<open>None\<close> when it does not return.
\<close>

type_synonym natives = "nat \<Rightarrow> js_value \<Rightarrow> js_value list \<Rightarrow> state \<Rightarrow> result"

definition doc_key :: key where
  "doc_key = KString ''__doc__''"

text \<open>The template literal of the shadow field's name; a symbol cannot be converted.\<close>

fun shadow_key :: "key \<Rightarrow> key option" where
  "shadow_key (KString k) = Some (KString (''_'' @ k))"
| "shadow_key (KSymbol _) = None"

fun first_arg :: "js_value list \<Rightarrow> js_value" where
  "first_arg [] = VUndefined"
| "first_arg (a # _) = a"

text \<open>
  Calls nest (a wrapper calls the original, a write calls a setter), and a setter
  can call itself without end, so the call takes fuel: \<open>None\<close> is "no result within
  this depth".
\<close>

fun call_function :: "natives \<Rightarrow> nat \<Rightarrow> caller" where
  "call_function N 0 f this args s = None"
| "call_function N (Suc n) f this args s =
     (case f of
        VObject r \<Rightarrow>
          (case callable (heap s r) of
             None \<Rightarrow> Some (Throw TypeError, s)
           | Some (Native i) \<Rightarrow> N i this args s
           | Some (DecoratedFunction target) \<Rightarrow> call_function N n target this args s
           | Some (DecoratedMethod originalMethod self) \<Rightarrow>
               and_then
                 (put_value (call_function N n) this doc_key (VString (label (annotators s self))) s)
                 (\<lambda>_ s'. call_function N n originalMethod this args s')
           | Some (PropertyGet k) \<Rightarrow>
               (case shadow_key k of
                  None \<Rightarrow> Some (Throw TypeError, s)
                | Some sk \<Rightarrow> get_value (call_function N n) this sk s)
           | Some (PropertySet k self) \<Rightarrow>
               (case shadow_key k of
                  None \<Rightarrow> Some (Throw TypeError, s)
                | Some sk \<Rightarrow>
                    and_then
                      (put_value (call_function N n) this sk (first_arg args) s)
                      (\<lambda>_ s'. put_value (call_function N n) this doc_key
                                 (VString (label (annotators s' self))) s')))
      | _ \<Rightarrow> Some (Throw TypeError, s))"

section \<open>The terminal operation: decorate\<close>

text \<open>
  \<open>decorate\<close> returns a function, a property descriptor, or nothing
  (\<open>Value VUndefined\<close>), or it throws.
\<close>

datatype decorated = Value js_value | Descriptor property | Failed js_error

definition finish :: "js_value \<Rightarrow> result \<Rightarrow> (decorated \<times> state) option" where
  "finish v m =
     (case m of
        None \<Rightarrow> None
      | Some (Throw e, s) \<Rightarrow> Some (Failed e, s)
      | Some (Return _, s) \<Rightarrow> Some (Value v, s))"

text \<open>
  The last branch of \<open>decorate\<close>: the property becomes an accessor pair made of two
  new closures.
\<close>

definition decorate_property :: "ref \<Rightarrow> ref \<Rightarrow> key \<Rightarrow> state \<Rightarrow> (decorated \<times> state) option" where
  "decorate_property self r k s =
     (let (g, s1) = new_function (PropertyGet k) s;
          (st, s2) = new_function (PropertySet k self) s1
      in case defineProperty r k (Accessor (VObject g) (VObject st) True True) s2 of
           (None, s3) \<Rightarrow> Some (Value VUndefined, s3)
         | (Some e, s3) \<Rightarrow> Some (Failed e, s3))"

text \<open>
  \<open>decorate(target, propertyKey?)\<close>.  With a key and a primitive target,
  \<open>Object.getOwnPropertyDescriptor\<close> throws for \<open>undefined\<close> and \<open>null\<close>, and for
  the other primitives it finds no function-valued property, after which
  \<open>Object.defineProperty\<close> throws: a \<open>TypeError\<close> in every case (the two closures
  that the second path allocates before it throws are unreachable, and left out).
\<close>

definition decorate ::
  "natives \<Rightarrow> nat \<Rightarrow> ref \<Rightarrow> js_value \<Rightarrow> key option \<Rightarrow> state \<Rightarrow> (decorated \<times> state) option" where
  "decorate N fuel self target propertyKey s =
     (if typeof s target = ''function'' \<and> propertyKey = None then
        (let (f, s1) = new_function (DecoratedFunction target) s
         in finish (VObject f)
              (put_value (call_function N fuel) (VObject f) doc_key
                 (VString (label (annotators s1 self))) s1))
      else
        (case propertyKey of
           None \<Rightarrow>
             finish target
               (put_value (call_function N fuel) target doc_key
                  (VString (label (annotators s self))) s)
         | Some k \<Rightarrow>
             (case target of
                VObject r \<Rightarrow>
                  (case own_property s r k of
                     Some (Data v w e c) \<Rightarrow>
                       (if typeof s v = ''function'' then
                          (let (f, s1) = new_function (DecoratedMethod v self) s
                           in Some (Descriptor (Data (VObject f) w e c), s1))
                        else decorate_property self r k s)
                   | _ \<Rightarrow> decorate_property self r k s)
              | _ \<Rightarrow> Some (Failed TypeError, s))))"

text \<open>\<open>f.__doc__\<close> and the other plain reads of the claims: the value of a data property.\<close>

definition data_value :: "state \<Rightarrow> ref \<Rightarrow> key \<Rightarrow> js_value option" where
  "data_value s r k =
     (case own_property s r k of Some (Data v _ _ _) \<Rightarrow> Some v | _ \<Rightarrow> None)"

section \<open>Conditions on the target, for stating the claims\<close>

text \<open>
  A write of \<open>k\<close> on the object \<open>r\<close> is a plain store when the property is absent and
  the object extensible, or when it is a writable data property.
\<close>

definition can_write :: "state \<Rightarrow> ref \<Rightarrow> key \<Rightarrow> bool" where
  "can_write s r k =
     (case own_property s r k of
        None \<Rightarrow> extensible (heap s r)
      | Some (Data _ w _ _) \<Rightarrow> w
      | Some (Accessor _ _ _ _) \<Rightarrow> False)"

text \<open>The store after such a write: the value changes, the attributes stay.\<close>

definition write_data :: "ref \<Rightarrow> key \<Rightarrow> js_value \<Rightarrow> state \<Rightarrow> state" where
  "write_data r k v s =
     store_prop r k
       (case own_property s r k of
          Some (Data _ w e c) \<Rightarrow> Data v w e c
        | _ \<Rightarrow> Data v True True True) s"

text \<open>
  \<open>Object.defineProperty\<close> accepts any descriptor for \<open>k\<close> when the property is
  absent and the object extensible, or when the property is configurable.
\<close>

definition can_define :: "state \<Rightarrow> ref \<Rightarrow> key \<Rightarrow> bool" where
  "can_define s r k =
     (case own_property s r k of
        None \<Rightarrow> extensible (heap s r)
      | Some p \<Rightarrow> is_configurable p)"

text \<open>The existing descriptor of \<open>k\<close> has a callable value: the method form applies.\<close>

definition has_method :: "state \<Rightarrow> ref \<Rightarrow> key \<Rightarrow> bool" where
  "has_method s r k =
     (case own_property s r k of
        Some (Data v _ _ _) \<Rightarrow> typeof s v = ''function''
      | _ \<Rightarrow> False)"

section \<open>The rendering, in the words of the specification\<close>

text \<open>
  These three definitions follow the specification's sentences about \<open>toString\<close>,
  not the source; the source's \<open>toString\<close>, \<open>formatTags\<close> and \<open>getType\<close> are compared
  with them.  The block of all tags: one line \<open>@name value\<close> per tag, the lines
  separated by a line break, written here as every line ended by a line break with
  the last break removed.
\<close>

definition tag_block :: "(string \<times> string) list \<Rightarrow> string" where
  "tag_block entries =
     (if entries = [] then []
      else butlast (concat (map (\<lambda>(name, v). ''@'' @ name @ '' '' @ v @ [CHR 0x0A]) entries)))"

text \<open>
  The resolved type name: \<open>"Number"\<close>, \<open>"String"\<close>, \<open>"Boolean"\<close> for the three
  primitive cases, otherwise the constructor name of the value, otherwise
  \<open>"unknown"\<close>.
\<close>

definition named_type :: "state \<Rightarrow> js_value \<Rightarrow> string" where
  "named_type s v =
     (case v of
        VBoolean _ \<Rightarrow> ''Boolean''
      | VString _ \<Rightarrow> ''String''
      | VNumber _ \<Rightarrow> ''Number''
      | VNaN \<Rightarrow> ''Number''
      | _ \<Rightarrow> (case constructor_of s v of Some n \<Rightarrow> n | None \<Rightarrow> ''unknown''))"

text \<open>
  The rendering: the label, the message in parentheses if one is set, the
  description after a blank line if one is set, a blank line and the block of all
  tags, and if \<open>preserveTypes\<close> is set a blank line and the \<open>@type\<close> line.  An option
  is set when the source's test of it succeeds: a string that is not empty, a value
  that is truthy.
\<close>

definition rendering :: "state \<Rightarrow> string \<Rightarrow> annotator_options \<Rightarrow> string" where
  "rendering s l opts =
     l
     @ (case message opts of Some (c # cs) \<Rightarrow> '' ('' @ c # cs @ '')'' | _ \<Rightarrow> [])
     @ (case description opts of Some (c # cs) \<Rightarrow> blank_line @ c # cs | _ \<Rightarrow> [])
     @ blank_line @ tag_block (case tags opts of None \<Rightarrow> [] | Some entries \<Rightarrow> entries)
     @ (if truthy (preserveTypes opts)
        then blank_line @ ''@type '' @ named_type s (preserveTypes opts) else [])"

section \<open>Example states\<close>

definition plain_object :: js_object where
  "plain_object = \<lparr>props = [], extensible = True, callable = None, constructor_name = Some ''Object''\<rparr>"

definition init_state :: state where
  "init_state = \<lparr>heap = (\<lambda>_. plain_object), next_ref = 0, annotators = (\<lambda>_. \<lparr>label = [], options = Options empty_options\<rparr>), next_annotator = 0\<rparr>"

text \<open>A user function that ignores the store and returns its first argument.\<close>

definition example_natives :: natives where
  "example_natives i this args s = Some (Return (first_arg args), s)"

text \<open>The options of the end-to-end rendering example.\<close>

definition method_options :: annotator_options where
  "method_options =
     \<lparr>message = None, description = Some ''desc'', tags = Some [(''author'', ''X'')],
      preserveTypes = VUndefined\<rparr>"

text \<open>
  The store after a successful property-form \<open>decorate\<close>: the getter and the setter
  are the next two objects, and the property is the accessor pair.
\<close>

definition accessor_state :: "ref \<Rightarrow> ref \<Rightarrow> key \<Rightarrow> state \<Rightarrow> state" where
  "accessor_state a r k s =
     store_prop r k (Accessor (VObject (next_ref s)) (VObject (Suc (next_ref s))) True True)
       (snd (new_function (PropertySet k a) (snd (new_function (PropertyGet k) s))))"

text \<open>A function of the user, as an object of the store.\<close>

definition user_function :: js_object where
  "user_function =
     \<lparr>props = [], extensible = True, callable = Some (Native 0), constructor_name = Some ''Function''\<rparr>"

text \<open>
  A class is a callable object like any other function; \<open>class_state\<close> holds a class
  at 0 and the annotator \<open>forClass("MyClass")\<close>.
\<close>

definition class_state :: state where
  "class_state = snd (forClass ''MyClass'' None (snd (alloc user_function init_state)))"

text \<open>
  \<open>method_state\<close>: the object 0 is \<open>{prop: f}\<close> with the function \<open>f\<close> at 1, and the
  annotator 0 is \<open>forMethod("prop")\<close>.
\<close>

definition method_object :: js_object where
  "method_object =
     \<lparr>props = [(KString ''prop'', Data (VObject 1) True True True)], extensible = True,
      callable = None, constructor_name = Some ''Object''\<rparr>"

definition method_state :: state where
  "method_state =
     snd (forMethod ''prop'' None (snd (alloc user_function (snd (alloc method_object init_state)))))"



text \<open>\<open>property_state\<close>: the object 0 is \<open>{}\<close>, the annotator 0 is \<open>forProperty("prop")\<close>.\<close>

definition property_state :: state where
  "property_state = snd (forProperty ''prop'' None (snd (alloc plain_object init_state)))"

text \<open>
  \<open>getter_only_state\<close>: the object 0 is \<open>{ get _prop() {...} }\<close>, with the getter at 1.
\<close>

definition getter_only_object :: js_object where
  "getter_only_object =
     \<lparr>props = [(KString ''_prop'', Accessor (VObject 1) VUndefined True True)], extensible = True,
      callable = None, constructor_name = Some ''Object''\<rparr>"

definition getter_only_state :: state where
  "getter_only_state =
     snd (forProperty ''prop'' None (snd (alloc user_function (snd (alloc getter_only_object init_state)))))"

text \<open>\<open>frozen_state\<close>: the object 0 is \<open>Object.freeze({})\<close>.\<close>

definition frozen_object :: js_object where
  "frozen_object =
     \<lparr>props = [], extensible = False, callable = None, constructor_name = Some ''Object''\<rparr>"

definition frozen_state :: state where
  "frozen_state = snd (forClass ''Config'' None (snd (alloc frozen_object init_state)))"

text \<open>An annotator whose \<open>preserveTypes\<close> option is \<open>v\<close>, in a store with the object \<open>{}\<close> at 0.\<close>

definition preserve_state :: "js_value \<Rightarrow> state" where
  "preserve_state v =
     snd (forProperty ''count'' (Some (Options (empty_options\<lparr>preserveTypes := v\<rparr>)))
            (snd (alloc plain_object init_state)))"

text \<open>\<open>function_state\<close>: a function of the user at 0 and the annotator \<open>forFunction()\<close>.\<close>

definition function_state :: state where
  "function_state = snd (forFunction None (snd (alloc user_function init_state)))"

text \<open>Options with every field set, and two tags.\<close>

definition full_options :: annotator_options where
  "full_options =
     \<lparr>message = Some ''msg'', description = Some ''desc'',
      tags = Some [(''author'', ''X''), (''version'', ''1.0.0'')], preserveTypes = VBoolean True\<rparr>"

text \<open>\<open>null_options_state\<close>: the annotator 0 is \<open>forMethod("myMethod", null)\<close>.\<close>

definition null_options_state :: state where
  "null_options_state = snd (forMethod ''myMethod'' (Some NullOptions) init_state)"

section \<open>Auxiliary facts\<close>

lemma set_label_simps:
  "label (annotators (set_label a l s) a) = l"
  "options (annotators (set_label a l s) b) = options (annotators s b)"
  "b \<noteq> a \<Longrightarrow> annotators (set_label a l s) b = annotators s b"
  "heap (set_label a l s) = heap s"
  "next_ref (set_label a l s) = next_ref s"
  "next_annotator (set_label a l s) = next_annotator s"
  by (simp_all add: set_label_def)

lemma own_property_store_prop:
  "own_property (store_prop r k p s) r' k' =
     (if r' = r \<and> k' = k then Some p else own_property s r' k')"
proof -
  have "map_of (update_prop k p ps) k' = (if k' = k then Some p else map_of ps k')" for ps
    by (induction ps) auto
  then show ?thesis by (auto simp: own_property_def store_prop_def)
qed

lemma store_prop_fields:
  "callable (heap (store_prop r k p s) r') = callable (heap s r')"
  "extensible (heap (store_prop r k p s) r') = extensible (heap s r')"
  "constructor_name (heap (store_prop r k p s) r') = constructor_name (heap s r')"
  "r' \<noteq> r \<Longrightarrow> heap (store_prop r k p s) r' = heap s r'"
  "annotators (store_prop r k p s) = annotators s"
  "next_ref (store_prop r k p s) = next_ref s"
  "next_annotator (store_prop r k p s) = next_annotator s"
  by (simp_all add: store_prop_def)

lemma typeof_store_prop: "typeof (store_prop r k p s) v = typeof s v"
  by (simp add: typeof_def store_prop_fields split: js_value.splits)

lemma new_function_facts:
  "fst (new_function c s) = next_ref s"
  "heap (snd (new_function c s)) (next_ref s) =
     \<lparr>props = [], extensible = True, callable = Some c, constructor_name = Some ''Function''\<rparr>"
  "r \<noteq> next_ref s \<Longrightarrow> heap (snd (new_function c s)) r = heap s r"
  "annotators (snd (new_function c s)) = annotators s"
  "next_ref (snd (new_function c s)) = Suc (next_ref s)"
  "next_annotator (snd (new_function c s)) = next_annotator s"
  by (simp_all add: new_function_def alloc_def)

text \<open>The function form, computed: one allocation and one write on the new function.\<close>

lemma decorate_function_form:
  assumes "typeof s target = ''function''"
  shows "decorate N fuel a target None s =
     Some (Value (VObject (next_ref s)),
           store_prop (next_ref s) doc_key (Data (VString (label (annotators s a))) True True True)
             (snd (new_function (DecoratedFunction target) s)))"
  using assms
  by (simp add: decorate_def finish_def put_value_def own_property_def new_function_def alloc_def
      split: prod.splits)

lemma put_value_plain:
  assumes "can_write s r k"
  shows "put_value call (VObject r) k v s = Some (Return VUndefined, write_data r k v s)"
  using assms
  by (auto simp: put_value_def can_write_def write_data_def split: option.splits property.splits)

lemma write_data_facts:
  "own_property (write_data r k v s) r' k' =
     (if r' = r \<and> k' = k
      then Some (case own_property s r k of Some (Data _ w e c) \<Rightarrow> Data v w e c | _ \<Rightarrow> Data v True True True)
      else own_property s r' k')"
  "callable (heap (write_data r k v s) r') = callable (heap s r')"
  "extensible (heap (write_data r k v s) r') = extensible (heap s r')"
  "annotators (write_data r k v s) = annotators s"
  "typeof (write_data r k v s) x = typeof s x"
  by (simp_all add: write_data_def own_property_store_prop store_prop_fields typeof_store_prop)

lemma data_value_write_data:
  "data_value (write_data r k v s) r' k' =
     (if r' = r \<and> k' = k then Some v else data_value s r' k')"
  by (simp add: data_value_def write_data_facts split: option.splits property.splits)

lemma can_write_write_data:
  "(r', k') \<noteq> (r, k) \<Longrightarrow> can_write (write_data r k v s) r' k' = can_write s r' k'"
  by (auto simp: can_write_def write_data_facts split: option.splits property.splits)

lemma decorate_method_form:
  assumes "own_property s r k = Some (Data m w e c)" and "typeof s m = ''function''"
  shows "decorate N fuel a (VObject r) (Some k) s =
     Some (Descriptor (Data (VObject (next_ref s)) w e c), snd (new_function (DecoratedMethod m a) s))"
  using assms
  by (simp add: decorate_def typeof_def new_function_def alloc_def split: prod.splits)


lemma call_decorated_method:
  assumes "callable (heap t f) = Some (DecoratedMethod m a)"
  shows "call_function N (Suc n) (VObject f) this args t =
     and_then (put_value (call_function N n) this doc_key (VString (label (annotators t a))) t)
       (\<lambda>_ s'. call_function N n m this args s')"
  using assms by simp

lemma own_property_new_function:
  "r \<noteq> next_ref s \<Longrightarrow> own_property (snd (new_function c s)) r k = own_property s r k"
  by (simp add: own_property_def new_function_facts)

lemma decorate_property_form:
  assumes "\<not> has_method s r k" and "r < next_ref s"
  shows "decorate N fuel a (VObject r) (Some k) s =
     (if can_define s r k then Some (Value VUndefined, accessor_state a r k s)
      else Some (Failed TypeError, snd (new_function (PropertySet k a) (snd (new_function (PropertyGet k) s)))))"
proof -
  let ?s1 = "snd (new_function (PropertyGet k) s)"
  let ?s2 = "snd (new_function (PropertySet k a) ?s1)"
  have r1: "r \<noteq> next_ref s" and r2: "r \<noteq> next_ref ?s1"
    using assms(2) by (simp_all add: new_function_facts)
  have op: "own_property ?s2 r k = own_property s r k"
    using r1 r2 by (simp add: own_property_new_function)
  have ex: "extensible (heap ?s2 r) = extensible (heap s r)"
    using r1 r2 by (simp add: new_function_facts)
  have dp: "decorate_property a r k s =
     (case defineProperty r k (Accessor (VObject (next_ref s)) (VObject (Suc (next_ref s))) True True) ?s2 of
        (None, s3) \<Rightarrow> Some (Value VUndefined, s3)
      | (Some e, s3) \<Rightarrow> Some (Failed e, s3))"
    by (simp add: decorate_property_def new_function_def alloc_def split: prod.splits)
  have df: "defineProperty r k p ?s2 =
     (if can_define s r k then (None, store_prop r k p ?s2) else (Some TypeError, ?s2))"
    if "\<exists>g st. p = Accessor g st True True" for p
    using that op ex
    by (auto simp: defineProperty_def can_define_def split: option.splits property.splits bool.splits)
  have dec: "decorate N fuel a (VObject r) (Some k) s = decorate_property a r k s"
    using assms(1)
    by (auto simp: decorate_def has_method_def split: option.splits property.splits)
  show ?thesis
    by (simp add: dec dp df accessor_state_def)
qed

lemma can_write_after_write: "can_write s r k \<Longrightarrow> can_write (write_data r k v s) r k"
  by (auto simp: can_write_def write_data_facts split: option.splits property.splits)

lemma call_property_set:
  assumes "callable (heap t st) = Some (PropertySet (KString name) a)"
    and "can_write t r (KString (''_'' @ name))" and "can_write t r doc_key"
    and "name \<noteq> ''_doc__''"
  shows "call_function N (Suc n) (VObject st) (VObject r) [x] t =
     Some (Return VUndefined,
           write_data r doc_key (VString (label (annotators t a))) (write_data r (KString (''_'' @ name)) x t))"
proof -
  let ?sk = "KString (''_'' @ name)"
  have ne: "(r, doc_key) \<noteq> (r, ?sk)" using assms(4) by (simp add: doc_key_def)
  have cw: "can_write (write_data r ?sk x t) r doc_key"
    using can_write_write_data [OF ne] assms(3) by simp
  have p1: "put_value (call_function N n) (VObject r) ?sk x t
      = Some (Return VUndefined, write_data r ?sk x t)"
    by (rule put_value_plain [OF assms(2)])
  have p2: "put_value (call_function N n) (VObject r) doc_key (VString (label (annotators t a)))
        (write_data r ?sk x t)
      = Some (Return VUndefined,
              write_data r doc_key (VString (label (annotators t a))) (write_data r ?sk x t))"
    by (rule put_value_plain [OF cw])
  show ?thesis
    using assms(1) p1 p2 by (simp add: and_then_def write_data_facts)
qed

lemma call_property_get:
  assumes "callable (heap t g) = Some (PropertyGet (KString name))"
    and "data_value t r (KString (''_'' @ name)) = Some x"
  shows "call_function N (Suc n) (VObject g) (VObject r) [] t = Some (Return x, t)"
  using assms
  by (simp add: get_value_def data_value_def split: option.splits property.splits)

lemmas example_defs =
  forClass_def forMethod_def forProperty_def forFunction_def new_Annotator_def alloc_def
  init_state_def empty_options_def plain_object_def user_function_def

lemma mutators_keep_heap:
  "heap (snd (withDescription a d t)) = heap t"
  "heap (snd (withTag a n v t)) = heap t"
  "heap (snd (withPreserveTypes a t)) = heap t"
  by (simp_all add: withDescription_def withTag_def withPreserveTypes_def set_label_simps
      split: sum.splits)

lemma data_value_heap_cong: "heap t = heap s \<Longrightarrow> data_value t r k = data_value s r k"
  by (simp add: data_value_def own_property_def)

lemma decorate_whole_object:
  assumes "typeof s (VObject r) \<noteq> ''function''" and "can_write s r doc_key"
  shows "decorate N fuel a (VObject r) None s =
     Some (Value (VObject r), write_data r doc_key (VString (label (annotators s a))) s)"
  using assms by (simp add: decorate_def put_value_plain finish_def)

lemma has_method_iff:
  "has_method s r k \<longleftrightarrow> (\<exists>m w e c. own_property s r k = Some (Data m w e c) \<and> typeof s m = ''function'')"
  by (auto simp: has_method_def split: option.splits property.splits)


lemma can_write_absent:
  "own_property s r k = None \<Longrightarrow> extensible (heap s r) \<Longrightarrow> can_write s r k"
  by (simp add: can_write_def)

lemma call_native:
  "callable (heap s f) = Some (Native i) \<Longrightarrow> call_function N (Suc n) (VObject f) this args s = N i this args s"
  by simp

lemma function_state_facts:
  "typeof function_state (VObject 0) = ''function''"
  "next_ref function_state = 1"
  "label (annotators function_state 0) = ''Function''"
  "callable (heap function_state 0) = Some (Native 0)"
  "options (annotators function_state 0) = Options empty_options"
  by (simp_all add: function_state_def example_defs typeof_def)

lemma method_state_facts:
  "own_property method_state 0 (KString ''prop'') = Some (Data (VObject 1) True True True)"
  "typeof method_state (VObject 1) = ''function''"
  "next_ref method_state = 2"
  "label (annotators method_state 0) = ''Method: prop''"
  "callable (heap method_state 1) = Some (Native 0)"
  "extensible (heap method_state 0)"
  "own_property method_state 0 doc_key = None"
  by (simp_all add: method_state_def method_object_def example_defs own_property_def doc_key_def
      typeof_def)

lemma property_state_facts:
  "\<not> has_method property_state 0 k"
  "can_define property_state 0 k"
  "next_ref property_state = 1"
  "label (annotators property_state 0) = ''Property: prop''"
  "extensible (heap property_state 0)"
  "own_property property_state 0 k = None"
  "typeof property_state (VObject 0) = ''object''"
  by (simp_all add: property_state_def example_defs own_property_def has_method_def can_define_def
      typeof_def)

lemma frozen_state_facts:
  "\<not> has_method frozen_state 0 k"
  "\<not> can_define frozen_state 0 k"
  "next_ref frozen_state = 1"
  by (simp_all add: frozen_state_def frozen_object_def example_defs own_property_def has_method_def
      can_define_def)

lemma mutator_labels:
  "label (annotators (snd (withDescription a d t)) a) = label (annotators t a) @ blank_line @ d"
  "label (annotators (snd (withTag a n v t)) a) = label (annotators t a) @ blank_line @ ''@'' @ n @ '' '' @ v"
  by (simp_all add: withDescription_def withTag_def set_label_simps)

lemma own_property_heap_cong: "heap t = heap s \<Longrightarrow> own_property t r k = own_property s r k"
  by (simp add: own_property_def)

text \<open>
  Why the key \<open>__doc__\<close> is special in the property form: the setter's own write of
  \<open>__doc__\<close> runs the setter again, so the call has no result at any depth.
\<close>

lemma doc_key_setter_never_returns:
  assumes "own_property t r doc_key = Some (Accessor g (VObject st) e c)"
    and "callable (heap t st) = Some (PropertySet doc_key a)"
    and "can_write t r (KString ''___doc__'')"
  shows "call_function N n (VObject st) (VObject r) [x] t = None"
  using assms
proof (induction n arbitrary: t x)
  case 0
  show ?case by simp
next
  case (Suc n)
  let ?sk = "KString ''___doc__''"
  let ?t1 = "write_data r ?sk x t"
  have sk: "shadow_key doc_key = Some ?sk" by (simp add: doc_key_def)
  have ne: "?sk \<noteq> doc_key" by (simp add: doc_key_def)
  have p1: "put_value (call_function N n) (VObject r) ?sk x t = Some (Return VUndefined, ?t1)"
    by (rule put_value_plain [OF Suc.prems(3)])
  have a1: "own_property ?t1 r doc_key = Some (Accessor g (VObject st) e c)"
    using Suc.prems(1) ne by (simp add: write_data_facts)
  have c1: "callable (heap ?t1 st) = Some (PropertySet doc_key a)"
    using Suc.prems(2) by (simp add: write_data_facts)
  have w1: "can_write ?t1 r ?sk" by (rule can_write_after_write [OF Suc.prems(3)])
  have ty: "typeof ?t1 (VObject st) = ''function''" using c1 by (simp add: typeof_def)
  have inner: "call_function N n (VObject st) (VObject r) [y] ?t1 = None" for y
    by (rule Suc.IH [OF a1 c1 w1])
  have p2: "put_value (call_function N n) (VObject r) doc_key y ?t1 = None" for y
    unfolding put_value_def using a1 ty inner by (simp add: and_then_def)
  show ?case
    using Suc.prems(2) sk p1 p2 by (simp add: and_then_def)
qed

text \<open>The source's \<open>join\<close> against the specification's block of lines.\<close>

lemma join_line_break:
  "xs \<noteq> [] \<Longrightarrow> join [c] (map f xs) @ [c] = concat (map (\<lambda>x. f x @ [c]) xs)"
proof (induction xs)
  case Nil
  then show ?case by simp
next
  case (Cons x xs)
  show ?case
  proof (cases xs)
    case Nil
    then show ?thesis by simp
  next
    case (Cons y ys)
    then show ?thesis using Cons.IH by simp
  qed
qed

lemma join_lines:
  assumes "xs \<noteq> []"
  shows "butlast (concat (map (\<lambda>x. f x @ [c]) xs)) = join [c] (map f xs)"
proof -
  have "butlast (join [c] (map f xs) @ [c]) = join [c] (map f xs)"
    by (rule butlast_snoc)
  then show ?thesis by (simp only: join_line_break [OF assms])
qed

lemma join_tag_block:
  "join [CHR 0x0A] (map (\<lambda>(name, v). ''@'' @ name @ '' '' @ v) entries) = tag_block entries"
proof (cases "entries = []")
  case True
  then show ?thesis by (simp add: tag_block_def)
next
  case False
  have f: "(\<lambda>(name, v). ''@'' @ name @ '' '' @ v @ [CHR 0x0A])
      = (\<lambda>x. (case x of (name, v) \<Rightarrow> ''@'' @ name @ '' '' @ v) @ [CHR 0x0A])"
    by (simp add: fun_eq_iff)
  have "tag_block entries
      = butlast (concat (map (\<lambda>x. (case x of (name, v) \<Rightarrow> ''@'' @ name @ '' '' @ v) @ [CHR 0x0A]) entries))"
    using False unfolding tag_block_def f by simp
  also have "\<dots> = join [CHR 0x0A] (map (\<lambda>(name, v). ''@'' @ name @ '' '' @ v) entries)"
    by (rule join_lines [OF False])
  finally show ?thesis by simp
qed

lemma getType_named_type:
  assumes "options (annotators s a) = Options opts" and "truthy (preserveTypes opts)"
  shows "getType s a = Inr (named_type s (preserveTypes opts))"
  using assms
  by (simp add: getType_def Let_def typeof_def types_table_def named_type_def truthy_def
      constructor_of_def split: js_value.splits option.splits)

lemma toString_rendering:
  assumes "options (annotators s a) = Options opts"
  shows "toString a s = (Inr (rendering s (label (annotators s a)) opts), s)"
proof -
  have ft: "formatTags s a = Inr (tag_block (case tags opts of None \<Rightarrow> [] | Some entries \<Rightarrow> entries))"
  proof (cases "tags opts")
    case None
    then show ?thesis using assms by (simp add: formatTags_def tag_block_def)
  next
    case (Some entries)
    then show ?thesis using assms by (simp only: formatTags_def join_tag_block) simp
  qed
  show ?thesis
  proof (cases "truthy (preserveTypes opts)")
    case True
    show ?thesis
      using assms True getType_named_type [OF assms True]
      by (simp add: toString_def Let_def ft rendering_def truthy_string_def
          split: option.splits list.splits)
  next
    case False
    show ?thesis
      using assms False
      by (simp add: toString_def Let_def ft rendering_def truthy_string_def
          split: option.splits list.splits)
  qed
qed

lemma can_write_heap_cong: "heap t = heap s \<Longrightarrow> can_write t r k = can_write s r k"
  by (simp add: can_write_def own_property_def split: option.splits)

section \<open>The claims\<close>

text \<open>
  C1 (the code at a class).  A class is a function, so \<open>decorate(C)\<close> takes the first
  branch: in \<open>class_state\<close>, where the class is the object 0, it returns the new
  wrapper 1 carrying \<open>__doc__\<close>, not the class 0, and the class gets no \<open>__doc__\<close>.
\<close>

theorem decorate_class_returns_wrapper:
  "typeof class_state (VObject 0) = ''function''
   \<and> label (annotators class_state 0) = ''Class: MyClass''
   \<and> (case decorate example_natives 1 0 (VObject 0) None class_state of
        Some (Value v, s') \<Rightarrow>
          v = VObject 1 \<and> v \<noteq> VObject 0
          \<and> data_value s' 0 doc_key = None
          \<and> data_value s' 1 doc_key = Some (VString ''Class: MyClass'')
      | _ \<Rightarrow> False)"
  by (simp add: class_state_def example_defs typeof_def decorate_def new_function_def finish_def
      put_value_def own_property_def store_prop_def data_value_def doc_key_def)

text \<open>
  C2.  For a function \<open>f\<close> that exists in the store, \<open>decorate(f)\<close> without a key
  returns a new function \<open>w\<close>, different from \<open>f\<close>, whose \<open>__doc__\<close> is the current
  label; \<open>f\<close> itself is unchanged; and as long as \<open>w\<close> keeps its body, a call of \<open>w\<close>
  is the call of \<open>f\<close> with the same receiver, arguments and store (one level of
  nesting deeper), so it returns what \<open>f\<close> returns.
\<close>

theorem decorate_function_wraps:
  assumes "typeof s (VObject f) = ''function''" and "f < next_ref s"
  shows "\<exists>w s'. decorate N fuel a (VObject f) None s = Some (Value (VObject w), s')
     \<and> w \<noteq> f
     \<and> typeof s' (VObject w) = ''function''
     \<and> data_value s' w doc_key = Some (VString (label (annotators s a)))
     \<and> heap s' f = heap s f
     \<and> (\<forall>n this args t. callable (heap t w) = callable (heap s' w) \<longrightarrow>
          call_function N (Suc n) (VObject w) this args t = call_function N n (VObject f) this args t)"
proof -
  let ?w = "next_ref s"
  let ?s' = "store_prop ?w doc_key (Data (VString (label (annotators s a))) True True True)
             (snd (new_function (DecoratedFunction (VObject f)) s))"
  have d: "decorate N fuel a (VObject f) None s = Some (Value (VObject ?w), ?s')"
    by (rule decorate_function_form [OF assms(1)])
  have ne: "?w \<noteq> f" using assms(2) by simp
  have c: "callable (heap ?s' ?w) = Some (DecoratedFunction (VObject f))"
    by (simp add: store_prop_fields new_function_facts)
  have t: "typeof ?s' (VObject ?w) = ''function''"
    using c by (simp add: typeof_def)
  have dv: "data_value ?s' ?w doc_key = Some (VString (label (annotators s a)))"
    by (simp add: data_value_def own_property_store_prop)
  have h: "heap ?s' f = heap s f"
    using ne by (simp add: store_prop_fields new_function_facts)
  have call: "call_function N (Suc n) (VObject ?w) this args t = call_function N n (VObject f) this args t"
    if "callable (heap t ?w) = callable (heap ?s' ?w)" for n this args t
    using that c by simp
  show ?thesis using d ne t dv h call by blast
qed

text \<open>
  In \<open>function_state\<close>: the wrapper is a new object, its \<open>__doc__\<close> is \<open>"Function"\<close>, and
  called with \<open>(1, 2)\<close> it returns 1, as the function does.
\<close>

theorem decorate_function_wraps_witness:
  "typeof function_state (VObject 0) = ''function'' \<and> 0 < next_ref function_state
   \<and> (\<exists>w s'. decorate example_natives 1 0 (VObject 0) None function_state = Some (Value (VObject w), s')
         \<and> w \<noteq> 0
         \<and> data_value s' w doc_key = Some (VString ''Function'')
         \<and> heap s' 0 = heap function_state 0
         \<and> call_function example_natives (Suc (Suc 0)) (VObject w) VUndefined [VNumber 1, VNumber 2] s'
             = Some (Return (VNumber 1), s')
         \<and> call_function example_natives (Suc 0) (VObject 0) VUndefined [VNumber 1, VNumber 2] s'
             = Some (Return (VNumber 1), s'))"
proof -
  have h1: "typeof function_state (VObject 0) = ''function''"
    by (simp add: function_state_def example_defs typeof_def)
  have h2: "0 < next_ref function_state"
    by (simp add: function_state_def example_defs)
  have lab: "label (annotators function_state 0) = ''Function''"
    by (simp add: function_state_def example_defs)
  have c0: "callable (heap function_state 0) = Some (Native 0)"
    by (simp add: function_state_def example_defs)
  from decorate_function_wraps [OF h1 h2, of example_natives 1 0]
  obtain w s' where d: "decorate example_natives 1 0 (VObject 0) None function_state = Some (Value (VObject w), s')"
    and ne: "w \<noteq> 0"
    and dv: "data_value s' w doc_key = Some (VString (label (annotators function_state 0)))"
    and hp: "heap s' 0 = heap function_state 0"
    and call: "\<And>n this args t. callable (heap t w) = callable (heap s' w) \<Longrightarrow>
          call_function example_natives (Suc n) (VObject w) this args t
            = call_function example_natives n (VObject 0) this args t"
    by blast
  have f: "call_function example_natives (Suc 0) (VObject 0) VUndefined [VNumber 1, VNumber 2] s'
             = Some (Return (VNumber 1), s')"
    using hp c0 by (simp add: example_natives_def)
  have g: "call_function example_natives (Suc (Suc 0)) (VObject w) VUndefined [VNumber 1, VNumber 2] s'
             = Some (Return (VNumber 1), s')"
    using call [of s' "Suc 0"] f by simp
  show ?thesis using h1 h2 d ne dv lab hp f g by auto
qed




text \<open>
  C4, refuted as stated for every object.  On \<open>{ get _prop() {...} }\<close>, \<open>decorate\<close> with
  the key \<open>prop\<close> installs the accessor pair, but the assignment \<open>obj.prop = "x"\<close>
  throws a \<open>TypeError\<close> at the write of the shadow field, which has no setter.
\<close>

theorem getter_only_shadow_counterexample:
  "\<not> has_method getter_only_state 0 (KString ''prop'')
   \<and> (case decorate example_natives 1 0 (VObject 0) (Some (KString ''prop'')) getter_only_state of
        Some (Value v, s1) \<Rightarrow>
          v = VUndefined
          \<and> map_option fst (put_value (call_function example_natives 3) (VObject 0) (KString ''prop'') (VString ''x'') s1)
              = Some (Throw TypeError)
      | _ \<Rightarrow> False)"
  by (simp add: getter_only_state_def getter_only_object_def example_defs typeof_def decorate_def new_function_def
      put_value_def own_property_def defineProperty_def doc_key_def store_prop_def data_value_def
      example_natives_def numeral_3_eq_3 and_then_def has_method_def decorate_property_def)

text \<open>
  C4 (as amended).  Let \<open>obj\<close> be an existing object with no method at the string key
  \<open>name\<close>, on which the property can be defined, and let \<open>name\<close> be neither
  \<open>__doc__\<close> nor \<open>_doc__\<close>.  Then \<open>decorate(obj, name)\<close> installs an accessor pair, and
  in every later store in which the pair is still in place and the shadow field
  \<open>_name\<close> and \<open>__doc__\<close> can be written on \<open>obj\<close>, the assignment \<open>obj[name] = x\<close>
  sets the shadow field to \<open>x\<close> and \<open>__doc__\<close> to the annotator's current label, and
  reading \<open>obj[name]\<close> afterwards returns \<open>x\<close>.  The same conditions hold again after
  the assignment, so this happens on every assignment.
\<close>

theorem decorate_property_accessor:
  assumes "\<not> has_method s r (KString name)" and "can_define s r (KString name)"
    and "r < next_ref s" and "name \<noteq> ''__doc__''" and "name \<noteq> ''_doc__''"
  shows "\<exists>g st s1. decorate N fuel a (VObject r) (Some (KString name)) s = Some (Value VUndefined, s1)
     \<and> own_property s1 r (KString name) = Some (Accessor (VObject g) (VObject st) True True)
     \<and> (\<forall>t n x.
          own_property t r (KString name) = own_property s1 r (KString name)
          \<and> callable (heap t g) = callable (heap s1 g)
          \<and> callable (heap t st) = callable (heap s1 st)
          \<and> can_write t r (KString (''_'' @ name)) \<and> can_write t r doc_key \<longrightarrow>
          (let t' = write_data r doc_key (VString (label (annotators t a)))
                      (write_data r (KString (''_'' @ name)) x t)
           in put_value (call_function N (Suc n)) (VObject r) (KString name) x t
                = Some (Return VUndefined, t')
              \<and> data_value t' r (KString (''_'' @ name)) = Some x
              \<and> data_value t' r doc_key = Some (VString (label (annotators t a)))
              \<and> get_value (call_function N (Suc n)) (VObject r) (KString name) t' = Some (Return x, t')
              \<and> own_property t' r (KString name) = own_property s1 r (KString name)
              \<and> callable (heap t' g) = callable (heap s1 g)
              \<and> callable (heap t' st) = callable (heap s1 st)
              \<and> can_write t' r (KString (''_'' @ name)) \<and> can_write t' r doc_key))"
proof -
  let ?k = "KString name"
  let ?sk = "KString (''_'' @ name)"
  let ?g = "next_ref s"
  let ?st = "Suc (next_ref s)"
  let ?s1 = "accessor_state a r ?k s"
  have d: "decorate N fuel a (VObject r) (Some ?k) s = Some (Value VUndefined, ?s1)"
    using decorate_property_form [OF assms(1) assms(3)] assms(2) by simp
  have acc: "own_property ?s1 r ?k = Some (Accessor (VObject ?g) (VObject ?st) True True)"
    by (simp add: accessor_state_def own_property_store_prop)
  have cg: "callable (heap ?s1 ?g) = Some (PropertyGet ?k)"
    by (simp add: accessor_state_def store_prop_fields new_function_facts)
  have cst: "callable (heap ?s1 ?st) = Some (PropertySet ?k a)"
    using new_function_facts(2) [of "PropertySet ?k a" "snd (new_function (PropertyGet ?k) s)"]
    by (simp add: accessor_state_def store_prop_fields new_function_facts)
  have k1: "?k \<noteq> ?sk" by simp
  have k2: "?k \<noteq> doc_key" using assms(4) by (simp add: doc_key_def)
  have k3: "?sk \<noteq> doc_key" using assms(5) by (simp add: doc_key_def)
  have body: "(let t' = write_data r doc_key (VString (label (annotators t a))) (write_data r ?sk x t)
           in put_value (call_function N (Suc n)) (VObject r) ?k x t = Some (Return VUndefined, t')
              \<and> data_value t' r ?sk = Some x
              \<and> data_value t' r doc_key = Some (VString (label (annotators t a)))
              \<and> get_value (call_function N (Suc n)) (VObject r) ?k t' = Some (Return x, t')
              \<and> own_property t' r ?k = own_property ?s1 r ?k
              \<and> callable (heap t' ?g) = callable (heap ?s1 ?g)
              \<and> callable (heap t' ?st) = callable (heap ?s1 ?st)
              \<and> can_write t' r ?sk \<and> can_write t' r doc_key)"
    if h: "own_property t r ?k = own_property ?s1 r ?k"
          "callable (heap t ?g) = callable (heap ?s1 ?g)"
          "callable (heap t ?st) = callable (heap ?s1 ?st)"
          "can_write t r ?sk" "can_write t r doc_key"
    for t n x
  proof -
    let ?t1 = "write_data r ?sk x t"
    let ?t' = "write_data r doc_key (VString (label (annotators t a))) ?t1"
    have pt: "own_property t r ?k = Some (Accessor (VObject ?g) (VObject ?st) True True)"
      using h(1) acc by simp
    have tg: "callable (heap t ?g) = Some (PropertyGet ?k)" using h(2) cg by simp
    have tst: "callable (heap t ?st) = Some (PropertySet ?k a)" using h(3) cst by simp
    have ty: "typeof t (VObject ?st) = ''function''" using tst by (simp add: typeof_def)
    have setter: "call_function N (Suc n) (VObject ?st) (VObject r) [x] t = Some (Return VUndefined, ?t')"
      by (rule call_property_set [OF tst h(4) h(5) assms(5)])
    have put: "put_value (call_function N (Suc n)) (VObject r) ?k x t = Some (Return VUndefined, ?t')"
      unfolding put_value_def using pt ty setter by (simp add: and_then_def)
    have dsk: "data_value ?t' r ?sk = Some x"
      using k3 by (simp add: data_value_write_data)
    have ddoc: "data_value ?t' r doc_key = Some (VString (label (annotators t a)))"
      by (simp add: data_value_write_data)
    have pt': "own_property ?t' r ?k = Some (Accessor (VObject ?g) (VObject ?st) True True)"
      using pt k1 k2 by (simp add: write_data_facts)
    have tg': "callable (heap ?t' ?g) = Some (PropertyGet ?k)"
      using tg by (simp add: write_data_facts)
    have tst': "callable (heap ?t' ?st) = Some (PropertySet ?k a)"
      using tst by (simp add: write_data_facts)
    have ty': "typeof ?t' (VObject ?g) = ''function''" using tg' by (simp add: typeof_def)
    have getter: "call_function N (Suc n) (VObject ?g) (VObject r) [] ?t' = Some (Return x, ?t')"
      by (rule call_property_get [OF tg' dsk])
    have get: "get_value (call_function N (Suc n)) (VObject r) ?k ?t' = Some (Return x, ?t')"
      unfolding get_value_def using pt' ty' getter by simp
    have cw1: "can_write ?t' r ?sk"
    proof -
      have "can_write ?t1 r ?sk" by (rule can_write_after_write [OF h(4)])
      moreover have "(r, ?sk) \<noteq> (r, doc_key)" using k3 by simp
      ultimately show ?thesis using can_write_write_data [of r ?sk r doc_key] by simp
    qed
    have cw2: "can_write ?t' r doc_key"
    proof -
      have "(r, doc_key) \<noteq> (r, ?sk)" using k3 by simp
      then have "can_write ?t1 r doc_key" using can_write_write_data [of r doc_key r ?sk] h(5) by simp
      then show ?thesis by (rule can_write_after_write)
    qed
    show ?thesis
      unfolding Let_def using put dsk ddoc get pt' acc tg' cg tst' cst cw1 cw2 by simp
  qed
  show ?thesis
    using d acc body by blast
qed

text \<open>
  In \<open>property_state\<close>: two assignments in a row, each sets the shadow field and
  \<open>__doc__\<close>, and the read in between returns the value assigned.
\<close>

theorem decorate_property_accessor_witness:
  "\<not> has_method property_state 0 (KString ''prop'') \<and> can_define property_state 0 (KString ''prop'')
   \<and> 0 < next_ref property_state \<and> ''prop'' \<noteq> ''__doc__'' \<and> ''prop'' \<noteq> ''_doc__''
   \<and> (\<exists>s1 t1 t2.
        decorate example_natives 1 0 (VObject 0) (Some (KString ''prop'')) property_state
          = Some (Value VUndefined, s1)
        \<and> can_write s1 0 (KString ''_prop'') \<and> can_write s1 0 doc_key
        \<and> put_value (call_function example_natives (Suc 0)) (VObject 0) (KString ''prop'') (VString ''x'') s1
            = Some (Return VUndefined, t1)
        \<and> data_value t1 0 (KString ''_prop'') = Some (VString ''x'')
        \<and> data_value t1 0 doc_key = Some (VString ''Property: prop'')
        \<and> get_value (call_function example_natives (Suc 0)) (VObject 0) (KString ''prop'') t1
            = Some (Return (VString ''x''), t1)
        \<and> put_value (call_function example_natives (Suc 0)) (VObject 0) (KString ''prop'') (VString ''y'') t1
            = Some (Return VUndefined, t2)
        \<and> data_value t2 0 (KString ''_prop'') = Some (VString ''y'')
        \<and> data_value t2 0 doc_key = Some (VString ''Property: prop''))"
proof -
  let ?k = "KString ''prop''"
  let ?sk = "KString ''_prop''"
  have h1: "\<not> has_method property_state 0 ?k"
    and h2: "can_define property_state 0 ?k"
    and h3: "0 < next_ref property_state"
    and nr: "next_ref property_state = 1"
    and lab: "label (annotators property_state 0) = ''Property: prop''"
    and ex: "extensible (heap property_state 0)"
    and none: "own_property property_state 0 k' = None" for k'
    by (simp_all add: property_state_def example_defs own_property_def has_method_def can_define_def)
  have h4: "''prop'' \<noteq> ''__doc__''" and h5: "''prop'' \<noteq> ''_doc__''" by simp_all
  from decorate_property_accessor [OF h1 h2 h3 h4 h5, of example_natives 1 0]
  obtain g st s1 where d: "decorate example_natives 1 0 (VObject 0) (Some ?k) property_state
        = Some (Value VUndefined, s1)"
    and step: "\<And>t n x. own_property t 0 ?k = own_property s1 0 ?k
          \<and> callable (heap t g) = callable (heap s1 g)
          \<and> callable (heap t st) = callable (heap s1 st)
          \<and> can_write t 0 (KString (''_'' @ ''prop'')) \<and> can_write t 0 doc_key \<Longrightarrow>
          (let t' = write_data 0 doc_key (VString (label (annotators t 0)))
                      (write_data 0 (KString (''_'' @ ''prop'')) x t)
           in put_value (call_function example_natives (Suc n)) (VObject 0) ?k x t
                = Some (Return VUndefined, t')
              \<and> data_value t' 0 (KString (''_'' @ ''prop'')) = Some x
              \<and> data_value t' 0 doc_key = Some (VString (label (annotators t 0)))
              \<and> get_value (call_function example_natives (Suc n)) (VObject 0) ?k t' = Some (Return x, t')
              \<and> own_property t' 0 ?k = own_property s1 0 ?k
              \<and> callable (heap t' g) = callable (heap s1 g)
              \<and> callable (heap t' st) = callable (heap s1 st)
              \<and> can_write t' 0 (KString (''_'' @ ''prop'')) \<and> can_write t' 0 doc_key)"
    by blast
  have s1: "s1 = accessor_state 0 0 ?k property_state"
    using d decorate_property_form [OF h1 h3, of example_natives 1 0] h2 by simp
  have l1: "label (annotators s1 0) = ''Property: prop''"
    using lab by (simp add: s1 accessor_state_def store_prop_fields new_function_facts)
  have e1: "extensible (heap s1 0)"
    using ex nr by (simp add: s1 accessor_state_def store_prop_fields new_function_facts)
  have n1: "own_property s1 0 k' = None" if "k' \<noteq> ?k" for k'
    using that none nr
    by (simp add: s1 accessor_state_def own_property_store_prop own_property_new_function new_function_facts)
  have cw1: "can_write s1 0 ?sk" by (rule can_write_absent [OF n1 e1]) simp
  have cw2: "can_write s1 0 doc_key" by (rule can_write_absent [OF n1 e1]) (simp add: doc_key_def)
  let ?t1 = "write_data 0 doc_key (VString ''Property: prop'') (write_data 0 ?sk (VString ''x'') s1)"
  let ?t2 = "write_data 0 doc_key (VString ''Property: prop'') (write_data 0 ?sk (VString ''y'') ?t1)"
  have first: "put_value (call_function example_natives (Suc 0)) (VObject 0) ?k (VString ''x'') s1
                = Some (Return VUndefined, ?t1)
      \<and> data_value ?t1 0 ?sk = Some (VString ''x'')
      \<and> data_value ?t1 0 doc_key = Some (VString ''Property: prop'')
      \<and> get_value (call_function example_natives (Suc 0)) (VObject 0) ?k ?t1 = Some (Return (VString ''x''), ?t1)
      \<and> own_property ?t1 0 ?k = own_property s1 0 ?k
      \<and> callable (heap ?t1 g) = callable (heap s1 g)
      \<and> callable (heap ?t1 st) = callable (heap s1 st)
      \<and> can_write ?t1 0 ?sk \<and> can_write ?t1 0 doc_key"
    using step [of s1 "VString ''x''" 0] cw1 cw2 l1 by (simp add: Let_def)
  have l2: "label (annotators ?t1 0) = ''Property: prop''"
    using l1 by (simp add: write_data_facts)
  have second: "put_value (call_function example_natives (Suc 0)) (VObject 0) ?k (VString ''y'') ?t1
                = Some (Return VUndefined, ?t2)
      \<and> data_value ?t2 0 ?sk = Some (VString ''y'')
      \<and> data_value ?t2 0 doc_key = Some (VString ''Property: prop'')"
    using step [of ?t1 "VString ''y''" 0] first l2 by (simp add: Let_def)
  show ?thesis using h1 h2 h3 d cw1 cw2 first second by auto
qed

text \<open>
  C5, refuted as stated.  On a frozen object \<open>decorate\<close> throws a \<open>TypeError\<close>, without
  a key (the write of \<open>__doc__\<close>) and with one (\<open>Object.defineProperty\<close>).
\<close>

theorem decorate_frozen_counterexample:
  "typeof frozen_state (VObject 0) = ''object''
   \<and> decorate example_natives 1 0 (VObject 0) None frozen_state = Some (Failed TypeError, frozen_state)
   \<and> decorate example_natives 1 0 (VObject 0) (Some (KString ''prop'')) frozen_state
       = Some (Failed TypeError,
               snd (new_function (PropertySet (KString ''prop'') 0)
                      (snd (new_function (PropertyGet (KString ''prop'')) frozen_state))))"
  by (simp add: frozen_state_def frozen_object_def example_defs typeof_def decorate_def new_function_def finish_def
      put_value_def own_property_def decorate_property_def defineProperty_def doc_key_def)

text \<open>
  C5 (as amended).  The four static factories, \<open>withDescription\<close> and \<open>withTag\<close> never
  throw, whatever the options (they return the new annotator with its seeded label,
  or the instance).  \<open>toString\<close> and \<open>withPreserveTypes\<close> throw exactly when the
  options of the annotator are \<open>null\<close>; with options absent or an object they return,
  absent tags contribute the empty string and a type name that cannot be resolved
  is \<open>"unknown"\<close>.  \<open>decorate\<close> returns normally in the function form and in the
  method form; in the property form on an existing object it returns normally when
  the property can be defined and throws a \<open>TypeError\<close> otherwise; without a key on
  an object that is not a function it returns the object, stamped, when \<open>__doc__\<close>
  can be written.
\<close>

theorem throws_only_on_null_options_or_refusal:
  "fst (forClass cn opts s) = next_annotator s
   \<and> label (annotators (snd (forClass cn opts s)) (next_annotator s)) = ''Class: '' @ cn
   \<and> fst (forMethod cn opts s) = next_annotator s
   \<and> label (annotators (snd (forMethod cn opts s)) (next_annotator s)) = ''Method: '' @ cn
   \<and> fst (forFunction opts s) = next_annotator s
   \<and> label (annotators (snd (forFunction opts s)) (next_annotator s)) = ''Function''
   \<and> fst (forProperty cn opts s) = next_annotator s
   \<and> label (annotators (snd (forProperty cn opts s)) (next_annotator s)) = ''Property: '' @ cn
   \<and> options (annotators (snd (forClass cn opts s)) (next_annotator s))
        = (case opts of None \<Rightarrow> Options empty_options | Some v \<Rightarrow> v)
   \<and> fst (withDescription a d s) = a
   \<and> fst (withTag a tn tv s) = a
   \<and> ((\<exists>e. fst (toString a s) = Inl e) \<longleftrightarrow> options (annotators s a) = NullOptions)
   \<and> ((\<exists>e. fst (withPreserveTypes a s) = Inl e) \<longleftrightarrow> options (annotators s a) = NullOptions)
   \<and> ((\<exists>e. getType s a = Inl e) \<longleftrightarrow> options (annotators s a) = NullOptions)
   \<and> (options (annotators s a) = Options o' \<and> tags o' = None \<longrightarrow> formatTags s a = Inr [])
   \<and> (options (annotators s a) = Options o' \<and> types_table (typeof s (preserveTypes o')) = None
        \<and> (\<not> truthy (preserveTypes o') \<or> constructor_of s (preserveTypes o') = None)
        \<longrightarrow> getType s a = Inr ''unknown'')
   \<and> toString (fst (forFunction None s)) (snd (forFunction None s))
        = (Inr (''Function'' @ blank_line), snd (forFunction None s))
   \<and> (typeof s target = ''function'' \<longrightarrow>
        (\<exists>w s'. decorate N fuel a target None s = Some (Value (VObject w), s')))
   \<and> (has_method s r k \<longrightarrow>
        (\<exists>dsc s'. decorate N fuel a (VObject r) (Some k) s = Some (Descriptor dsc, s')))
   \<and> (\<not> has_method s r k \<and> r < next_ref s \<longrightarrow>
        (\<exists>s'. decorate N fuel a (VObject r) (Some k) s
                = Some (if can_define s r k then Value VUndefined else Failed TypeError, s')))
   \<and> (typeof s (VObject r) \<noteq> ''function'' \<and> can_write s r doc_key \<longrightarrow>
        (\<exists>s'. decorate N fuel a (VObject r) None s = Some (Value (VObject r), s')
              \<and> data_value s' r doc_key = Some (VString (label (annotators s a)))))"
proof -
  have fac: "fst (forClass cn opts s) = next_annotator s
   \<and> label (annotators (snd (forClass cn opts s)) (next_annotator s)) = ''Class: '' @ cn
   \<and> fst (forMethod cn opts s) = next_annotator s
   \<and> label (annotators (snd (forMethod cn opts s)) (next_annotator s)) = ''Method: '' @ cn
   \<and> fst (forFunction opts s) = next_annotator s
   \<and> label (annotators (snd (forFunction opts s)) (next_annotator s)) = ''Function''
   \<and> fst (forProperty cn opts s) = next_annotator s
   \<and> label (annotators (snd (forProperty cn opts s)) (next_annotator s)) = ''Property: '' @ cn
   \<and> options (annotators (snd (forClass cn opts s)) (next_annotator s))
        = (case opts of None \<Rightarrow> Options empty_options | Some v \<Rightarrow> v)"
    by (simp add: forClass_def forMethod_def forFunction_def forProperty_def new_Annotator_def)
  have mut: "fst (withDescription a d s) = a \<and> fst (withTag a tn tv s) = a"
    by (simp add: withDescription_def withTag_def)
  have gt: "(\<exists>e. getType s a = Inl e) \<longleftrightarrow> options (annotators s a) = NullOptions"
    by (auto simp: getType_def Let_def split: options_value.splits)
  have ft: "(\<exists>e. formatTags s a = Inl e) \<longleftrightarrow> options (annotators s a) = NullOptions"
    by (auto simp: formatTags_def split: options_value.splits option.splits)
  have ts: "(\<exists>e. fst (toString a s) = Inl e) \<longleftrightarrow> options (annotators s a) = NullOptions"
  proof (cases "options (annotators s a)")
    case NullOptions
    then show ?thesis by (simp add: toString_def)
  next
    case (Options opts)
    then show ?thesis by (simp add: toString_rendering)
  qed
  have wp: "(\<exists>e. fst (withPreserveTypes a s) = Inl e) \<longleftrightarrow> options (annotators s a) = NullOptions"
    using gt by (auto simp: withPreserveTypes_def split: sum.splits)
  have 1: "options (annotators s a) = Options o' \<and> tags o' = None \<longrightarrow> formatTags s a = Inr []"
    by (simp add: formatTags_def)
  have 2: "options (annotators s a) = Options o' \<and> types_table (typeof s (preserveTypes o')) = None
        \<and> (\<not> truthy (preserveTypes o') \<or> constructor_of s (preserveTypes o') = None)
        \<longrightarrow> getType s a = Inr ''unknown''"
    by (auto simp: getType_def Let_def)
  have no: "options (annotators (snd (forFunction None s)) (fst (forFunction None s))) = Options empty_options"
    "label (annotators (snd (forFunction None s)) (fst (forFunction None s))) = ''Function''"
    by (simp_all add: forFunction_def new_Annotator_def)
  have 3: "toString (fst (forFunction None s)) (snd (forFunction None s))
        = (Inr (''Function'' @ blank_line), snd (forFunction None s))"
    by (simp add: toString_rendering [OF no(1)] no(2) rendering_def empty_options_def tag_block_def
        truthy_def)
  have 4: "typeof s target = ''function'' \<longrightarrow>
        (\<exists>w s'. decorate N fuel a target None s = Some (Value (VObject w), s'))"
    using decorate_function_form [of s target N fuel a] by blast
  have 5: "has_method s r k \<longrightarrow>
        (\<exists>dsc s'. decorate N fuel a (VObject r) (Some k) s = Some (Descriptor dsc, s'))"
    using decorate_method_form [of s r k _ _ _ _ N fuel a] unfolding has_method_iff by blast
  have 6: "\<not> has_method s r k \<and> r < next_ref s \<longrightarrow>
        (\<exists>s'. decorate N fuel a (VObject r) (Some k) s
                = Some (if can_define s r k then Value VUndefined else Failed TypeError, s'))"
    using decorate_property_form [of s r k N fuel a] by auto
  have 7: "typeof s (VObject r) \<noteq> ''function'' \<and> can_write s r doc_key \<longrightarrow>
        (\<exists>s'. decorate N fuel a (VObject r) None s = Some (Value (VObject r), s')
              \<and> data_value s' r doc_key = Some (VString (label (annotators s a))))"
    using decorate_whole_object [of s r N fuel a] by (auto simp: data_value_write_data)
  show ?thesis
    using fac mut gt ts wp 1 2 3 4 5 6 7 by blast
qed

text \<open>
  Each part at an example store: an annotator without options returns from
  \<open>toString\<close> and \<open>withPreserveTypes\<close>, one with \<open>null\<close> options throws in both; a
  function, an object with a method, an empty object, and a frozen object, on which
  the property form throws.
\<close>

theorem throws_only_on_null_options_or_refusal_witness:
  "options (annotators function_state 0) = Options empty_options
   \<and> tags empty_options = None \<and> formatTags function_state 0 = Inr []
   \<and> getType function_state 0 = Inr ''unknown''
   \<and> toString 0 function_state = (Inr (''Function'' @ blank_line), function_state)
   \<and> fst (withPreserveTypes 0 function_state) = Inr 0
   \<and> options (annotators null_options_state 0) = NullOptions
   \<and> fst (toString 0 null_options_state) = Inl TypeError
   \<and> fst (withPreserveTypes 0 null_options_state) = Inl TypeError
   \<and> fst (withDescription 0 ''d'' null_options_state) = 0
   \<and> typeof function_state (VObject 0) = ''function''
   \<and> (\<exists>w s'. decorate example_natives 1 0 (VObject 0) None function_state = Some (Value (VObject w), s'))
   \<and> has_method method_state 0 (KString ''prop'')
   \<and> (\<exists>dsc s'. decorate example_natives 1 0 (VObject 0) (Some (KString ''prop'')) method_state
               = Some (Descriptor dsc, s'))
   \<and> \<not> has_method property_state 0 (KString ''prop'') \<and> 0 < next_ref property_state
   \<and> can_define property_state 0 (KString ''prop'')
   \<and> (\<exists>s'. decorate example_natives 1 0 (VObject 0) (Some (KString ''prop'')) property_state
             = Some (Value VUndefined, s'))
   \<and> \<not> has_method frozen_state 0 (KString ''prop'') \<and> 0 < next_ref frozen_state
   \<and> \<not> can_define frozen_state 0 (KString ''prop'')
   \<and> (\<exists>s'. decorate example_natives 1 0 (VObject 0) (Some (KString ''prop'')) frozen_state
             = Some (Failed TypeError, s'))
   \<and> typeof property_state (VObject 0) \<noteq> ''function'' \<and> can_write property_state 0 doc_key
   \<and> (\<exists>s'. decorate example_natives 1 0 (VObject 0) None property_state = Some (Value (VObject 0), s')
           \<and> data_value s' 0 doc_key = Some (VString ''Property: prop''))"
proof -
  let ?k = "KString ''prop''"
  have hm: "has_method method_state 0 ?k"
    using method_state_facts(1,2) by (simp add: has_method_def)
  have cw: "can_write property_state 0 doc_key"
    by (rule can_write_absent) (simp_all add: property_state_facts)
  have ty: "types_table (typeof function_state (preserveTypes empty_options)) = None"
    "\<not> truthy (preserveTypes empty_options)" "tags empty_options = None"
    by (simp_all add: typeof_def types_table_def truthy_def empty_options_def)
  have nu: "options (annotators null_options_state 0) = NullOptions"
    by (simp add: null_options_state_def forMethod_def new_Annotator_def init_state_def)
  note F = throws_only_on_null_options_or_refusal
    [of "''C''" None function_state 0 "''d''" "''a''" "''b''" empty_options "VObject 0"
        example_natives 1 0 ?k]
  note U = throws_only_on_null_options_or_refusal
    [of "''C''" None null_options_state 0 "''d''" "''a''" "''b''" empty_options "VObject 0"
        example_natives 1 0 ?k]
  note M = throws_only_on_null_options_or_refusal
    [of "''C''" None method_state 0 "''d''" "''a''" "''b''" empty_options "VObject 0"
        example_natives 1 0 ?k]
  note P = throws_only_on_null_options_or_refusal
    [of "''C''" None property_state 0 "''d''" "''a''" "''b''" empty_options "VObject 0"
        example_natives 1 0 ?k]
  note Z = throws_only_on_null_options_or_refusal
    [of "''C''" None frozen_state 0 "''d''" "''a''" "''b''" empty_options "VObject 0"
        example_natives 1 0 ?k]
  have 1: "formatTags function_state 0 = Inr []" "getType function_state 0 = Inr ''unknown''"
    "\<exists>w s'. decorate example_natives 1 0 (VObject 0) None function_state = Some (Value (VObject w), s')"
    using F ty by (simp_all add: function_state_facts)
  have ts: "toString 0 function_state = (Inr (''Function'' @ blank_line), function_state)"
    using toString_rendering [OF function_state_facts(5)]
    by (simp add: function_state_facts rendering_def empty_options_def tag_block_def truthy_def)
  have wpf: "fst (withPreserveTypes 0 function_state) = Inr 0"
  proof -
    have "\<not> (\<exists>e. fst (withPreserveTypes 0 function_state) = Inl e)"
      using F by (simp add: function_state_facts)
    then show ?thesis
      by (auto simp: withPreserveTypes_def split: sum.splits)
  qed
  have un: "fst (toString 0 null_options_state) = Inl TypeError"
    "fst (withPreserveTypes 0 null_options_state) = Inl TypeError"
  proof -
    from U nu obtain e1 e2 where "fst (toString 0 null_options_state) = Inl e1"
      "fst (withPreserveTypes 0 null_options_state) = Inl e2" by auto
    then show "fst (toString 0 null_options_state) = Inl TypeError"
      "fst (withPreserveTypes 0 null_options_state) = Inl TypeError"
      using nu by (auto simp: toString_def withPreserveTypes_def getType_def split: sum.splits)
  qed
  have wd: "fst (withDescription 0 ''d'' null_options_state) = 0" using U by simp
  have 2: "\<exists>dsc s'. decorate example_natives 1 0 (VObject 0) (Some ?k) method_state = Some (Descriptor dsc, s')"
    using M hm by simp
  have 3: "\<exists>s'. decorate example_natives 1 0 (VObject 0) (Some ?k) property_state = Some (Value VUndefined, s')"
    "\<exists>s'. decorate example_natives 1 0 (VObject 0) None property_state = Some (Value (VObject 0), s')
           \<and> data_value s' 0 doc_key = Some (VString ''Property: prop'')"
    using P cw by (simp_all add: property_state_facts)
  have 4: "\<exists>s'. decorate example_natives 1 0 (VObject 0) (Some ?k) frozen_state = Some (Failed TypeError, s')"
    using Z by (simp add: frozen_state_facts)
  show ?thesis
    using 1 2 3 4 hm cw ts wpf un wd nu ty(3)
    by (simp add: function_state_facts property_state_facts frozen_state_facts)
qed

text \<open>
  C6, refuted as stated for every annotator.  \<open>forMethod("myMethod", null)\<close> stores
  \<open>null\<close> as its options, and \<open>toString\<close> on it throws a \<open>TypeError\<close> instead of
  rendering the label.
\<close>

theorem toString_null_options_counterexample:
  "label (annotators null_options_state 0) = ''Method: myMethod''
   \<and> options (annotators null_options_state 0) = NullOptions
   \<and> toString 0 null_options_state = (Inl TypeError, null_options_state)"
  by (simp add: null_options_state_def forMethod_def new_Annotator_def init_state_def toString_def)

text \<open>
  C6 (as amended).  For an annotator whose options are absent or an options object,
  \<open>toString\<close> returns the rendering of the specification: the label, then the
  message in parentheses if one is set, then the description after a blank line if
  one is set, then a blank line and the block of all tags, one line \<open>@name value\<close>
  per tag, then, if \<open>preserveTypes\<close> is set, a blank line and \<open>@type\<close> with the
  resolved name.  For \<open>forMethod("myMethod", {description: "desc", tags: {author:
  "X"}})\<close> it is \<open>"Method: myMethod\n\ndesc\n\n@author X"\<close>; with a message, a
  description, two tags and \<open>preserveTypes: true\<close> every part appears, in that order;
  with no options at all it is the label and the separator of the empty tag block.
  On \<open>null\<close> options \<open>toString\<close> throws.
\<close>

theorem toString_renders:
  "(case options (annotators s a) of
      Options opts \<Rightarrow> toString a s = (Inr (rendering s (label (annotators s a)) opts), s)
    | NullOptions \<Rightarrow> toString a s = (Inl TypeError, s))
   \<and> (let (m, s1) = forMethod ''myMethod'' (Some (Options method_options)) s
      in fst (toString m s1)
           = Inr (''Method: myMethod'' @ blank_line @ ''desc'' @ blank_line @ ''@author X''))
   \<and> (let (c, s1) = forClass ''K'' (Some (Options full_options)) s
      in fst (toString c s1)
           = Inr (''Class: K (msg)'' @ blank_line @ ''desc'' @ blank_line
                  @ ''@author X'' @ [CHR 0x0A] @ ''@version 1.0.0'' @ blank_line @ ''@type Boolean''))
   \<and> (let (f, s1) = forFunction None s
      in fst (toString f s1) = Inr (''Function'' @ blank_line))"
proof -
  have 1: "(case options (annotators s a) of
      Options opts \<Rightarrow> toString a s = (Inr (rendering s (label (annotators s a)) opts), s)
    | NullOptions \<Rightarrow> toString a s = (Inl TypeError, s))"
  proof (cases "options (annotators s a)")
    case NullOptions
    then show ?thesis by (simp add: toString_def)
  next
    case (Options opts)
    then show ?thesis by (simp add: toString_rendering)
  qed
  have new: "options (annotators (snd (new_Annotator l (Some (Options o')) s)) (next_annotator s)) = Options o'"
    "options (annotators (snd (new_Annotator l None s)) (next_annotator s)) = Options empty_options"
    "label (annotators (snd (new_Annotator l opts s)) (next_annotator s)) = l"
    "fst (new_Annotator l opts s) = next_annotator s" for l o' opts
    by (simp_all add: new_Annotator_def)
  have 2: "(let (m, s1) = forMethod ''myMethod'' (Some (Options method_options)) s
      in fst (toString m s1)
           = Inr (''Method: myMethod'' @ blank_line @ ''desc'' @ blank_line @ ''@author X''))"
    by (simp add: forMethod_def split_beta toString_rendering [OF new(1)] new rendering_def
        method_options_def tag_block_def truthy_def)
  have 3: "(let (c, s1) = forClass ''K'' (Some (Options full_options)) s
      in fst (toString c s1)
           = Inr (''Class: K (msg)'' @ blank_line @ ''desc'' @ blank_line
                  @ ''@author X'' @ [CHR 0x0A] @ ''@version 1.0.0'' @ blank_line @ ''@type Boolean''))"
    by (simp add: forClass_def split_beta toString_rendering [OF new(1)] new rendering_def
        full_options_def tag_block_def truthy_def named_type_def)
  have 4: "(let (f, s1) = forFunction None s
      in fst (toString f s1) = Inr (''Function'' @ blank_line))"
    by (simp add: forFunction_def split_beta toString_rendering [OF new(2)] new rendering_def
        empty_options_def tag_block_def truthy_def)
  show ?thesis using 1 2 3 4 by simp
qed

text \<open>
  C7, refuted as stated.  The BigInt \<open>0n\<close> has a constructor, named \<open>BigInt\<close>, but it
  is falsy, so \<open>getType\<close> answers \<open>"unknown"\<close>.
\<close>

theorem getType_bigint_zero_counterexample:
  "options (annotators (preserve_state (VBigInt 0)) 0)
     = Options (empty_options\<lparr>preserveTypes := VBigInt 0\<rparr>)
   \<and> constructor_of (preserve_state (VBigInt 0)) (VBigInt 0) = Some ''BigInt''
   \<and> getType (preserve_state (VBigInt 0)) 0 = Inr ''unknown''
   \<and> getType (preserve_state (VBigInt 0)) 0 \<noteq> Inr ''BigInt''"
  by (simp add: preserve_state_def example_defs constructor_of_def getType_def typeof_def
      types_table_def truthy_def)

text \<open>
  C7 (as amended).  The resolved type name is \<open>"Boolean"\<close> for a boolean, \<open>"String"\<close>
  for a string, \<open>"Number"\<close> for a number; for any other value it is the name of the
  value's constructor when the value is truthy and its constructor is a function,
  and \<open>"unknown"\<close> otherwise.  \<open>withPreserveTypes\<close> appends that name.  For \<open>true\<close>,
  \<open>"abc"\<close>, \<open>{}\<close> and an absent option the names are \<open>"Boolean"\<close>, \<open>"String"\<close>,
  \<open>"Object"\<close> and \<open>"unknown"\<close>.  (On \<open>null\<close> options there is no \<open>preserveTypes\<close>
  option to inspect: the read throws.)
\<close>

theorem getType_resolution:
  "getType s a =
     (case options (annotators s a) of
        NullOptions \<Rightarrow> Inl TypeError
      | Options opts \<Rightarrow>
          Inr (case preserveTypes opts of
                 VBoolean _ \<Rightarrow> ''Boolean''
               | VString _ \<Rightarrow> ''String''
               | VNumber _ \<Rightarrow> ''Number''
               | VNaN \<Rightarrow> ''Number''
               | v \<Rightarrow> (if truthy v
                       then (case constructor_of s v of Some n \<Rightarrow> n | None \<Rightarrow> ''unknown'')
                       else ''unknown'')))
   \<and> (case getType s a of
        Inr t \<Rightarrow> label (annotators (snd (withPreserveTypes a s)) a)
                  = label (annotators s a) @ blank_line @ ''@type '' @ t
      | Inl e \<Rightarrow> withPreserveTypes a s = (Inl e, s))
   \<and> getType (preserve_state (VBoolean True)) 0 = Inr ''Boolean''
   \<and> getType (preserve_state (VString ''abc'')) 0 = Inr ''String''
   \<and> getType (preserve_state (VObject 0)) 0 = Inr ''Object''
   \<and> getType (preserve_state VUndefined) 0 = Inr ''unknown''"
proof -
  have g: "getType s a =
     (case options (annotators s a) of
        NullOptions \<Rightarrow> Inl TypeError
      | Options opts \<Rightarrow>
          Inr (case preserveTypes opts of
                 VBoolean _ \<Rightarrow> ''Boolean''
               | VString _ \<Rightarrow> ''String''
               | VNumber _ \<Rightarrow> ''Number''
               | VNaN \<Rightarrow> ''Number''
               | v \<Rightarrow> (if truthy v
                       then (case constructor_of s v of Some n \<Rightarrow> n | None \<Rightarrow> ''unknown'')
                       else ''unknown'')))" for s a
    by (simp add: getType_def Let_def typeof_def types_table_def truthy_def constructor_of_def
      split: options_value.splits js_value.splits option.splits)
  have w: "(case getType s a of
        Inr t \<Rightarrow> label (annotators (snd (withPreserveTypes a s)) a)
                  = label (annotators s a) @ blank_line @ ''@type '' @ t
      | Inl e \<Rightarrow> withPreserveTypes a s = (Inl e, s))"
    by (simp add: withPreserveTypes_def set_label_simps split: sum.splits)
  have p: "options (annotators (preserve_state v) 0) = Options (empty_options\<lparr>preserveTypes := v\<rparr>)"
     "constructor_name (heap (preserve_state v) 0) = Some ''Object''" for v
    by (simp_all add: preserve_state_def forProperty_def new_Annotator_def alloc_def init_state_def
        plain_object_def)
  have ex: "getType (preserve_state (VBoolean True)) 0 = Inr ''Boolean''"
    "getType (preserve_state (VString ''abc'')) 0 = Inr ''String''"
    "getType (preserve_state (VObject 0)) 0 = Inr ''Object''"
    "getType (preserve_state VUndefined) 0 = Inr ''unknown''"
    by (simp_all add: g p truthy_def constructor_of_def)
  show ?thesis using g [of s a] w ex by simp
qed


text \<open>
  C9.  \<open>toString\<close> leaves the store as it found it, so a second call returns the same
  string and a later \<open>decorate\<close> does what it would have done before the call.
\<close>

theorem toString_pure:
  "snd (toString a s) = s
   \<and> fst (toString a (snd (toString a s))) = fst (toString a s)
   \<and> decorate N fuel a target k (snd (toString a s)) = decorate N fuel a target k s"
proof -
  have "snd (toString a s) = s"
    by (simp add: toString_def Let_def split: options_value.splits sum.splits)
  then show ?thesis by simp
qed

text \<open>
  C10.  The wrapper of the function form carries the label of the time of
  \<open>decorate\<close>: its \<open>__doc__\<close> is the same after any later mutator call.  The wrapper of
  the method form and the setter of the property form read the label of the store
  they are called in: the setter writes the shadow field and then stamps the label
  it finds, so an assignment through the accessor leaves the current label in
  \<open>__doc__\<close>.  Every mutator call that returns changes that label.
\<close>

theorem snapshot_or_live_label:
  "(typeof s target = ''function'' \<longrightarrow>
      (\<exists>w s1. decorate N fuel a target None s = Some (Value (VObject w), s1)
         \<and> data_value s1 w doc_key = Some (VString (label (annotators s a)))
         \<and> data_value (snd (withDescription a d s1)) w doc_key = Some (VString (label (annotators s a)))
         \<and> data_value (snd (withTag a tn tv s1)) w doc_key = Some (VString (label (annotators s a)))
         \<and> data_value (snd (withPreserveTypes a s1)) w doc_key = Some (VString (label (annotators s a)))))
   \<and> (own_property s r k = Some (Data m w e c) \<and> typeof s m = ''function'' \<longrightarrow>
      (\<exists>f s1. decorate N fuel a (VObject r) (Some k) s = Some (Descriptor (Data (VObject f) w e c), s1)
         \<and> (\<forall>t n this args. callable (heap t f) = callable (heap s1 f) \<longrightarrow>
              call_function N (Suc n) (VObject f) this args t =
                and_then (put_value (call_function N n) this doc_key (VString (label (annotators t a))) t)
                  (\<lambda>_ s'. call_function N n m this args s'))))
   \<and> (\<not> has_method s r (KString name) \<and> can_define s r (KString name) \<and> r < next_ref s \<longrightarrow>
      (\<exists>g st s1. decorate N fuel a (VObject r) (Some (KString name)) s = Some (Value VUndefined, s1)
         \<and> own_property s1 r (KString name) = Some (Accessor (VObject g) (VObject st) True True)
         \<and> (\<forall>t n this x. callable (heap t st) = callable (heap s1 st) \<longrightarrow>
              call_function N (Suc n) (VObject st) this [x] t =
                and_then (put_value (call_function N n) this (KString (''_'' @ name)) x t)
                  (\<lambda>_ s'. put_value (call_function N n) this doc_key
                             (VString (label (annotators s' a))) s'))
         \<and> (\<forall>t n x. own_property t r (KString name) = own_property s1 r (KString name)
                \<and> callable (heap t st) = callable (heap s1 st)
                \<and> can_write t r (KString (''_'' @ name)) \<and> can_write t r doc_key
                \<and> name \<noteq> ''_doc__'' \<longrightarrow>
              (\<exists>t'. put_value (call_function N (Suc n)) (VObject r) (KString name) x t
                      = Some (Return VUndefined, t')
                    \<and> data_value t' r doc_key = Some (VString (label (annotators t a)))))))
   \<and> label (annotators (snd (withDescription a d t)) a) \<noteq> label (annotators t a)
   \<and> label (annotators (snd (withTag a tn tv t)) a) \<noteq> label (annotators t a)
   \<and> (case getType t a of
        Inr ty \<Rightarrow> label (annotators (snd (withPreserveTypes a t)) a) \<noteq> label (annotators t a)
      | Inl err \<Rightarrow> withPreserveTypes a t = (Inl err, t))"
proof -
  have fn: "\<exists>w s1. decorate N fuel a target None s = Some (Value (VObject w), s1)
         \<and> data_value s1 w doc_key = Some (VString (label (annotators s a)))
         \<and> data_value (snd (withDescription a d s1)) w doc_key = Some (VString (label (annotators s a)))
         \<and> data_value (snd (withTag a tn tv s1)) w doc_key = Some (VString (label (annotators s a)))
         \<and> data_value (snd (withPreserveTypes a s1)) w doc_key = Some (VString (label (annotators s a)))"
    if "typeof s target = ''function''"
  proof -
    let ?w = "next_ref s"
    let ?s1 = "store_prop ?w doc_key (Data (VString (label (annotators s a))) True True True)
             (snd (new_function (DecoratedFunction target) s))"
    have d: "decorate N fuel a target None s = Some (Value (VObject ?w), ?s1)"
      by (rule decorate_function_form [OF that])
    have dv: "data_value ?s1 ?w doc_key = Some (VString (label (annotators s a)))"
      by (simp add: data_value_def own_property_store_prop)
    have "data_value (snd (withDescription a d ?s1)) ?w doc_key = data_value ?s1 ?w doc_key"
      "data_value (snd (withTag a tn tv ?s1)) ?w doc_key = data_value ?s1 ?w doc_key"
      "data_value (snd (withPreserveTypes a ?s1)) ?w doc_key = data_value ?s1 ?w doc_key"
      by (rule data_value_heap_cong, rule mutators_keep_heap)+
    with d dv show ?thesis by simp
  qed
  have me: "\<exists>f s1. decorate N fuel a (VObject r) (Some k) s = Some (Descriptor (Data (VObject f) w e c), s1)
         \<and> (\<forall>t n this args. callable (heap t f) = callable (heap s1 f) \<longrightarrow>
              call_function N (Suc n) (VObject f) this args t =
                and_then (put_value (call_function N n) this doc_key (VString (label (annotators t a))) t)
                  (\<lambda>_ s'. call_function N n m this args s'))"
    if h: "own_property s r k = Some (Data m w e c)" "typeof s m = ''function''"
  proof -
    let ?f = "next_ref s"
    let ?s1 = "snd (new_function (DecoratedMethod m a) s)"
    have d: "decorate N fuel a (VObject r) (Some k) s = Some (Descriptor (Data (VObject ?f) w e c), ?s1)"
      by (rule decorate_method_form [OF h])
    have c1: "callable (heap ?s1 ?f) = Some (DecoratedMethod m a)"
      by (simp add: new_function_facts)
    have "call_function N (Suc n) (VObject ?f) this args t =
                and_then (put_value (call_function N n) this doc_key (VString (label (annotators t a))) t)
                  (\<lambda>_ s'. call_function N n m this args s')"
      if "callable (heap t ?f) = callable (heap ?s1 ?f)" for t n this args
      using that c1 by (simp only: call_decorated_method)
    with d show ?thesis by blast
  qed
  have pr: "\<exists>g st s1. decorate N fuel a (VObject r) (Some (KString name)) s = Some (Value VUndefined, s1)
         \<and> own_property s1 r (KString name) = Some (Accessor (VObject g) (VObject st) True True)
         \<and> (\<forall>t n this x. callable (heap t st) = callable (heap s1 st) \<longrightarrow>
              call_function N (Suc n) (VObject st) this [x] t =
                and_then (put_value (call_function N n) this (KString (''_'' @ name)) x t)
                  (\<lambda>_ s'. put_value (call_function N n) this doc_key
                             (VString (label (annotators s' a))) s'))
         \<and> (\<forall>t n x. own_property t r (KString name) = own_property s1 r (KString name)
                \<and> callable (heap t st) = callable (heap s1 st)
                \<and> can_write t r (KString (''_'' @ name)) \<and> can_write t r doc_key
                \<and> name \<noteq> ''_doc__'' \<longrightarrow>
              (\<exists>t'. put_value (call_function N (Suc n)) (VObject r) (KString name) x t
                      = Some (Return VUndefined, t')
                    \<and> data_value t' r doc_key = Some (VString (label (annotators t a)))))"
    if h: "\<not> has_method s r (KString name)" "can_define s r (KString name)" "r < next_ref s"
  proof -
    let ?k = "KString name"
    let ?sk = "KString (''_'' @ name)"
    let ?g = "next_ref s"
    let ?st = "Suc (next_ref s)"
    let ?s1 = "accessor_state a r ?k s"
    have d: "decorate N fuel a (VObject r) (Some ?k) s = Some (Value VUndefined, ?s1)"
      using decorate_property_form [OF h(1) h(3)] h(2) by simp
    have acc: "own_property ?s1 r ?k = Some (Accessor (VObject ?g) (VObject ?st) True True)"
      by (simp add: accessor_state_def own_property_store_prop)
    have cst: "callable (heap ?s1 ?st) = Some (PropertySet ?k a)"
      using new_function_facts(2) [of "PropertySet ?k a" "snd (new_function (PropertyGet ?k) s)"]
      by (simp add: accessor_state_def store_prop_fields new_function_facts)
    have live: "call_function N (Suc n) (VObject ?st) this [x] t =
                and_then (put_value (call_function N n) this ?sk x t)
                  (\<lambda>_ s'. put_value (call_function N n) this doc_key
                             (VString (label (annotators s' a))) s')"
      if "callable (heap t ?st) = callable (heap ?s1 ?st)" for t n this x
      using that cst by simp
    have assign: "\<exists>t'. put_value (call_function N (Suc n)) (VObject r) ?k x t
                      = Some (Return VUndefined, t')
                    \<and> data_value t' r doc_key = Some (VString (label (annotators t a)))"
      if a: "own_property t r ?k = own_property ?s1 r ?k"
        "callable (heap t ?st) = callable (heap ?s1 ?st)"
        "can_write t r ?sk" "can_write t r doc_key" "name \<noteq> ''_doc__''" for t n x
    proof -
      let ?t' = "write_data r doc_key (VString (label (annotators t a))) (write_data r ?sk x t)"
      have pt: "own_property t r ?k = Some (Accessor (VObject ?g) (VObject ?st) True True)"
        using a(1) acc by simp
      have tst: "callable (heap t ?st) = Some (PropertySet ?k a)" using a(2) cst by simp
      have ty: "typeof t (VObject ?st) = ''function''" using tst by (simp add: typeof_def)
      have setter: "call_function N (Suc n) (VObject ?st) (VObject r) [x] t = Some (Return VUndefined, ?t')"
        by (rule call_property_set [OF tst a(3) a(4) a(5)])
      have "put_value (call_function N (Suc n)) (VObject r) ?k x t = Some (Return VUndefined, ?t')"
        unfolding put_value_def using pt ty setter by (simp add: and_then_def)
      moreover have "data_value ?t' r doc_key = Some (VString (label (annotators t a)))"
        by (simp add: data_value_write_data)
      ultimately show ?thesis by blast
    qed
    show ?thesis using d acc live assign by blast
  qed
  have mu: "label (annotators (snd (withDescription a d t)) a) \<noteq> label (annotators t a)"
    "label (annotators (snd (withTag a tn tv t)) a) \<noteq> label (annotators t a)"
    "(case getType t a of
        Inr ty \<Rightarrow> label (annotators (snd (withPreserveTypes a t)) a) \<noteq> label (annotators t a)
      | Inl err \<Rightarrow> withPreserveTypes a t = (Inl err, t))"
    by (simp_all add: withDescription_def withTag_def withPreserveTypes_def set_label_simps
        split: sum.splits)
  show ?thesis using fn me pr mu by blast
qed

text \<open>
  In \<open>function_state\<close> the wrapper keeps \<open>"Function"\<close> after \<open>withDescription("more")\<close>;
  in \<open>method_state\<close> the wrapper called after \<open>withDescription("more")\<close> stamps the
  longer label; in \<open>property_state\<close> an assignment made after \<open>withTag("a", "b")\<close>
  stamps the label with the tag.
\<close>

theorem snapshot_or_live_label_witness:
  "typeof function_state (VObject 0) = ''function''
   \<and> (\<exists>w s1. decorate example_natives 1 0 (VObject 0) None function_state = Some (Value (VObject w), s1)
         \<and> data_value (snd (withDescription 0 ''more'' s1)) w doc_key = Some (VString ''Function'')
         \<and> label (annotators (snd (withDescription 0 ''more'' s1)) 0) = ''Function'' @ blank_line @ ''more'')
   \<and> own_property method_state 0 (KString ''prop'') = Some (Data (VObject 1) True True True)
   \<and> typeof method_state (VObject 1) = ''function''
   \<and> (\<exists>f s1. decorate example_natives 1 0 (VObject 0) (Some (KString ''prop'')) method_state
                 = Some (Descriptor (Data (VObject f) True True True), s1)
         \<and> call_function example_natives (Suc (Suc 0)) (VObject f) (VObject 0) []
              (snd (withDescription 0 ''more'' s1))
            = Some (Return VUndefined,
                    write_data 0 doc_key (VString (''Method: prop'' @ blank_line @ ''more''))
                      (snd (withDescription 0 ''more'' s1))))
   \<and> \<not> has_method property_state 0 (KString ''prop'') \<and> can_define property_state 0 (KString ''prop'')
   \<and> 0 < next_ref property_state
   \<and> (\<exists>s1 t1 t2.
        decorate example_natives 1 0 (VObject 0) (Some (KString ''prop'')) property_state
          = Some (Value VUndefined, s1)
        \<and> put_value (call_function example_natives (Suc 0)) (VObject 0) (KString ''prop'') (VString ''x'') s1
            = Some (Return VUndefined, t1)
        \<and> data_value t1 0 doc_key = Some (VString ''Property: prop'')
        \<and> put_value (call_function example_natives (Suc 0)) (VObject 0) (KString ''prop'') (VString ''x'')
             (snd (withTag 0 ''a'' ''b'' s1))
            = Some (Return VUndefined, t2)
        \<and> data_value t2 0 doc_key = Some (VString (''Property: prop'' @ blank_line @ ''@a b'')))"
proof -
  let ?k = "KString ''prop''"
  note F = snapshot_or_live_label
    [where s = function_state and target = "VObject 0" and N = example_natives and fuel = 1
       and a = 0 and d = "''more''" and tn = "''a''" and tv = "''b''" and r = 0 and k = ?k
       and m = "VObject 1" and w = True and e = True and c = True and t = function_state
       and name = "''prop''"]
  note M = snapshot_or_live_label
    [where s = method_state and target = "VObject 0" and N = example_natives and fuel = 1
       and a = 0 and d = "''more''" and tn = "''a''" and tv = "''b''" and r = 0 and k = ?k
       and m = "VObject 1" and w = True and e = True and c = True and t = method_state
       and name = "''prop''"]
  note P = snapshot_or_live_label
    [where s = property_state and target = "VObject 0" and N = example_natives and fuel = 1
       and a = 0 and d = "''more''" and tn = "''a''" and tv = "''b''" and r = 0 and k = ?k
       and m = "VObject 1" and w = True and e = True and c = True and t = property_state
       and name = "''prop''"]
  have fn: "\<exists>w s1. decorate example_natives 1 0 (VObject 0) None function_state = Some (Value (VObject w), s1)
         \<and> data_value (snd (withDescription 0 ''more'' s1)) w doc_key = Some (VString ''Function'')
         \<and> label (annotators (snd (withDescription 0 ''more'' s1)) 0) = ''Function'' @ blank_line @ ''more''"
  proof -
    from F function_state_facts(1)
    obtain w s1 where d: "decorate example_natives 1 0 (VObject 0) None function_state = Some (Value (VObject w), s1)"
      and dv: "data_value (snd (withDescription 0 ''more'' s1)) w doc_key
                = Some (VString (label (annotators function_state 0)))"
      by blast
    have "s1 = store_prop (next_ref function_state) doc_key
                 (Data (VString (label (annotators function_state 0))) True True True)
                 (snd (new_function (DecoratedFunction (VObject 0)) function_state))"
      using d decorate_function_form [OF function_state_facts(1), of example_natives 1 0] by simp
    then have "label (annotators s1 0) = ''Function''"
      by (simp add: store_prop_fields new_function_facts function_state_facts)
    then have "label (annotators (snd (withDescription 0 ''more'' s1)) 0) = ''Function'' @ blank_line @ ''more''"
      by (simp add: mutator_labels)
    with d dv show ?thesis by (auto simp: function_state_facts)
  qed
  have me: "\<exists>f s1. decorate example_natives 1 0 (VObject 0) (Some ?k) method_state
                 = Some (Descriptor (Data (VObject f) True True True), s1)
         \<and> call_function example_natives (Suc (Suc 0)) (VObject f) (VObject 0) []
              (snd (withDescription 0 ''more'' s1))
            = Some (Return VUndefined,
                    write_data 0 doc_key (VString (''Method: prop'' @ blank_line @ ''more''))
                      (snd (withDescription 0 ''more'' s1)))"
  proof -
    from M method_state_facts(1,2)
    obtain f s1 where d: "decorate example_natives 1 0 (VObject 0) (Some ?k) method_state
                 = Some (Descriptor (Data (VObject f) True True True), s1)"
      and call: "\<And>t n this args. callable (heap t f) = callable (heap s1 f) \<Longrightarrow>
              call_function example_natives (Suc n) (VObject f) this args t =
                and_then (put_value (call_function example_natives n) this doc_key
                            (VString (label (annotators t 0))) t)
                  (\<lambda>_ s'. call_function example_natives n (VObject 1) this args s')"
      by blast
    have s1: "s1 = snd (new_function (DecoratedMethod (VObject 1) 0) method_state)"
      using d decorate_method_form [OF method_state_facts(1,2), of example_natives 1 0] by simp
    let ?t = "snd (withDescription 0 ''more'' s1)"
    have ht: "heap ?t = heap s1" by (rule mutators_keep_heap)
    have lt: "label (annotators ?t 0) = ''Method: prop'' @ blank_line @ ''more''"
      by (simp add: mutator_labels s1 new_function_facts method_state_facts)
    have cw: "can_write ?t 0 doc_key"
    proof (rule can_write_absent)
      have "own_property ?t 0 doc_key = own_property s1 0 doc_key"
        by (rule own_property_heap_cong [OF ht])
      also have "\<dots> = own_property method_state 0 doc_key"
        unfolding s1 by (rule own_property_new_function) (simp add: method_state_facts)
      finally show "own_property ?t 0 doc_key = None"
        by (simp add: method_state_facts)
      show "extensible (heap ?t 0)"
        by (simp add: mutators_keep_heap s1 new_function_facts method_state_facts)
    qed
    let ?u = "write_data 0 doc_key (VString (''Method: prop'' @ blank_line @ ''more'')) ?t"
    have c1: "callable (heap ?u 1) = Some (Native 0)"
      using method_state_facts(5)
      by (simp add: write_data_facts mutators_keep_heap s1 new_function_facts method_state_facts)
    have orig: "call_function example_natives (Suc 0) (VObject 1) (VObject 0) [] ?u = Some (Return VUndefined, ?u)"
      by (simp only: call_native [OF c1]) (simp add: example_natives_def)
    have put: "put_value (call_function example_natives (Suc 0)) (VObject 0) doc_key
                 (VString (label (annotators ?t 0))) ?t = Some (Return VUndefined, ?u)"
      using put_value_plain [OF cw] lt by simp
    have "call_function example_natives (Suc (Suc 0)) (VObject f) (VObject 0) [] ?t = Some (Return VUndefined, ?u)"
      using call [of ?t "Suc 0" "VObject 0" "[]"] ht put orig by (simp add: and_then_def)
    with d show ?thesis by blast
  qed
  have pr: "\<exists>s1 t1 t2.
        decorate example_natives 1 0 (VObject 0) (Some ?k) property_state = Some (Value VUndefined, s1)
        \<and> put_value (call_function example_natives (Suc 0)) (VObject 0) ?k (VString ''x'') s1
            = Some (Return VUndefined, t1)
        \<and> data_value t1 0 doc_key = Some (VString ''Property: prop'')
        \<and> put_value (call_function example_natives (Suc 0)) (VObject 0) ?k (VString ''x'')
             (snd (withTag 0 ''a'' ''b'' s1))
            = Some (Return VUndefined, t2)
        \<and> data_value t2 0 doc_key = Some (VString (''Property: prop'' @ blank_line @ ''@a b''))"
  proof -
    have hyp: "\<not> has_method property_state 0 ?k" "can_define property_state 0 ?k"
      "0 < next_ref property_state"
      by (simp_all add: property_state_facts)
    note ex = mp [OF P [THEN conjunct2, THEN conjunct2, THEN conjunct1]
        conjI [OF hyp(1) conjI [OF hyp(2) hyp(3)]]]
    from ex obtain g st s1 where d: "decorate example_natives 1 0 (VObject 0) (Some ?k) property_state
          = Some (Value VUndefined, s1)"
      and assign0: "\<forall>t n x. own_property t 0 ?k = own_property s1 0 ?k
                \<and> callable (heap t st) = callable (heap s1 st)
                \<and> can_write t 0 (KString (''_'' @ ''prop'')) \<and> can_write t 0 doc_key
                \<and> ''prop'' \<noteq> ''_doc__'' \<longrightarrow>
              (\<exists>t'. put_value (call_function example_natives (Suc n)) (VObject 0) ?k x t
                      = Some (Return VUndefined, t')
                    \<and> data_value t' 0 doc_key = Some (VString (label (annotators t 0))))"
      by blast
    have assign: "\<exists>t'. put_value (call_function example_natives (Suc n)) (VObject 0) ?k x t
                      = Some (Return VUndefined, t')
                    \<and> data_value t' 0 doc_key = Some (VString (label (annotators t 0)))"
      if "own_property t 0 ?k = own_property s1 0 ?k" "callable (heap t st) = callable (heap s1 st)"
        "can_write t 0 (KString (''_'' @ ''prop''))" "can_write t 0 doc_key" for t x n
      using assign0 [rule_format, of t n x] that by simp
    have s1: "s1 = accessor_state 0 0 ?k property_state"
      using d decorate_property_form [OF hyp(1) hyp(3), of example_natives 1 0] hyp(2) by simp
    have l1: "label (annotators s1 0) = ''Property: prop''"
      by (simp add: s1 accessor_state_def store_prop_fields new_function_facts property_state_facts)
    have e1: "extensible (heap s1 0)"
      by (simp add: s1 accessor_state_def store_prop_fields new_function_facts property_state_facts)
    have n1: "own_property s1 0 k' = None" if "k' \<noteq> ?k" for k'
      using that
      by (simp add: s1 accessor_state_def own_property_store_prop own_property_new_function
          new_function_facts property_state_facts)
    have cw1: "can_write s1 0 (KString (''_'' @ ''prop''))"
      by (rule can_write_absent [OF n1 e1]) simp
    have cw2: "can_write s1 0 doc_key"
      by (rule can_write_absent [OF n1 e1]) (simp add: doc_key_def)
    let ?t = "snd (withTag 0 ''a'' ''b'' s1)"
    have ht: "heap ?t = heap s1" by (rule mutators_keep_heap)
    have lt: "label (annotators ?t 0) = ''Property: prop'' @ blank_line @ ''@a b''"
      by (simp add: mutator_labels l1)
    have cwt: "can_write ?t 0 (KString (''_'' @ ''prop''))" "can_write ?t 0 doc_key"
      using cw1 cw2 by (simp_all add: can_write_heap_cong [OF ht])
    have "heap ?t st = heap s1 st" by (simp add: ht)
    then have ct: "callable (heap ?t st) = callable (heap s1 st)" by simp
    from assign [OF refl refl cw1 cw2, of 0 "VString ''x''"] l1
    obtain t1 where a1: "put_value (call_function example_natives (Suc 0)) (VObject 0) ?k (VString ''x'') s1
            = Some (Return VUndefined, t1)"
      "data_value t1 0 doc_key = Some (VString ''Property: prop'')"
      by auto
    from assign [OF own_property_heap_cong [OF ht] ct cwt, of 0 "VString ''x''"] lt
    obtain t2 where a2: "put_value (call_function example_natives (Suc 0)) (VObject 0) ?k (VString ''x'') ?t
            = Some (Return VUndefined, t2)"
      "data_value t2 0 doc_key = Some (VString (''Property: prop'' @ blank_line @ ''@a b''))"
      by auto
    show ?thesis using d a1 a2 by blast
  qed
  show ?thesis
    using fn me pr method_state_facts(1,2) function_state_facts(1)
    by (simp add: property_state_facts)
qed

end
